theory Spec2Isabelle
  imports Main
begin

section \<open>The CLIP embedding command-line adapter (scripts/clip\_embed.py)\<close>

text \<open>
  The script reads one JSON document from standard input, hands an image or a text to a
  pretrained embedding model and prints the vector as JSON. Everything it does is glue
  around library calls (the JSON codec, base64, PIL, sentence-transformers), so the
  embedding below keeps the script's own control flow exactly and takes each library
  call as a field of an environment record. A library call either returns a value or
  raises; the script only ever observes the text \<open>str(exc)\<close> of such an exception,
  so a raising call is \<open>Inl\<close> of that text.
\<close>

subsection \<open>Python values\<close>

text \<open>
  A Python float is observed by the script only through its truth value. Every finite
  double is a decimal fraction, so \<open>Finite m e\<close> stands for the float of value
  \<open>m * 10 ^ e\<close>; it is zero exactly when \<open>m = 0\<close>.
\<close>

datatype pyfloat = Finite int int | Infinity bool | NaN

text \<open>
  What \<open>json.load\<close> returns: \<open>None\<close>, a bool, an int, a float, a str, a list or a
  dict. A dict is kept as its list of items; \<open>map_of\<close> is the lookup.
\<close>

datatype json =
    JNull
  | JBool bool
  | JInt int
  | JFloat pyfloat
  | JString string
  | JArray "json list"
  | JObject "(string \<times> json) list"

text \<open>
  What the model's \<open>encode\<close> may return, as far as the script inspects it: a number,
  a built-in list, an object with a \<open>tolist\<close> attribute (a numpy array or a tensor;
  the argument is what \<open>tolist()\<close> returns), or any other object.
\<close>

datatype pyval =
    PyNum pyfloat
  | PyList "pyval list"
  | PyArray pyval
  | PyOther string

text \<open>
  The exceptions that reach the handler of \<open>main\<close>. \<open>ValueError\<close> is raised by the
  script's own \<open>raise ValueError(...)\<close> statements only; \<open>AttributeError\<close> comes from
  \<open>payload.get\<close> on a payload that is not a dict; \<open>LibraryError\<close> is any exception
  that a library call raised, with its \<open>str(exc)\<close>. The handler is \<open>except Exception\<close>;
  what lies outside that hierarchy (an interrupt from the keyboard, \<open>SystemExit\<close>) is
  not raised by any statement of the script and is left out.
\<close>

datatype pyexc = ValueError string | AttributeError string | LibraryError string

fun exc_message :: "pyexc \<Rightarrow> string" where
  "exc_message (ValueError msg) = msg"
| "exc_message (AttributeError msg) = msg"
| "exc_message (LibraryError msg) = msg"

text \<open>Truthiness, as \<open>if not x\<close> tests it.\<close>

fun float_truthy :: "pyfloat \<Rightarrow> bool" where
  "float_truthy (Finite m e) = (m \<noteq> 0)"
| "float_truthy (Infinity negative) = True"
| "float_truthy NaN = True"

fun truthy :: "json \<Rightarrow> bool" where
  "truthy JNull = False"
| "truthy (JBool b) = b"
| "truthy (JInt i) = (i \<noteq> 0)"
| "truthy (JFloat f) = float_truthy f"
| "truthy (JString s) = (s \<noteq> [])"
| "truthy (JArray xs) = (xs \<noteq> [])"
| "truthy (JObject kvs) = (kvs \<noteq> [])"

text \<open>\<open>str()\<close> of an int, in decimal.\<close>

definition digit_char :: "nat \<Rightarrow> char" where
  "digit_char d = ''0123456789'' ! d"

fun str_nat :: "nat \<Rightarrow> string" where
  "str_nat n = (if n < 10 then [digit_char n] else str_nat (n div 10) @ [digit_char (n mod 10)])"

declare str_nat.simps [simp del]

definition str_int :: "int \<Rightarrow> string" where
  "str_int i = (if i < 0 then CHR ''-'' # str_nat (nat (- i)) else str_nat (nat i))"

definition newline :: string where
  "newline = [CHR 0x0A]"

definition quote :: string where
  "quote = [CHR 0x27]"

fun type_name :: "json \<Rightarrow> string" where
  "type_name JNull = ''NoneType''"
| "type_name (JBool b) = ''bool''"
| "type_name (JInt i) = ''int''"
| "type_name (JFloat f) = ''float''"
| "type_name (JString s) = ''str''"
| "type_name (JArray xs) = ''list''"
| "type_name (JObject kvs) = ''dict''"

text \<open>
  \<open>payload.get(key, default)\<close>: the value stored under the key, the default when
  the key is absent. Only a dict has the method; on anything else the attribute lookup
  raises \<open>AttributeError\<close>.
\<close>

definition dict_get :: "(string \<times> json) list \<Rightarrow> string \<Rightarrow> json \<Rightarrow> json" where
  "dict_get kvs key dflt = (case map_of kvs key of None \<Rightarrow> dflt | Some v \<Rightarrow> v)"

fun py_get :: "json \<Rightarrow> string \<Rightarrow> json \<Rightarrow> pyexc + json" where
  "py_get (JObject kvs) key dflt = Inr (dict_get kvs key dflt)"
| "py_get v key dflt =
     Inl (AttributeError (quote @ type_name v @ quote @ '' object has no attribute '' @ quote @ ''get'' @ quote))"

subsection \<open>The library calls\<close>

text \<open>
  The argument of \<open>model.encode\<close>: the script passes either one image (line 21) or a
  list holding the one text (line 28).
\<close>

datatype 'img encode_arg = Item 'img | Batch "json list"

text \<open>
  The environment of one process: every library call of the script. \<open>'m\<close> is the model
  handle, \<open>'img\<close> a PIL image; bytes are a \<open>string\<close>.
  \<^item> \<open>sentence_transformer name\<close> is \<open>SentenceTransformer(name)\<close>;
  \<^item> \<open>b64decode\<close>, \<open>image_open\<close>, \<open>image_convert\<close>, \<open>image_resize\<close> are
    \<open>base64.b64decode\<close>, \<open>Image.open(BytesIO(_))\<close>, \<open>.convert\<close> and \<open>.resize\<close>;
  \<^item> \<open>model_encode m arg\<close> is \<open>m.encode(arg)\<close>;
  \<^item> \<open>json_dump v\<close> is \<open>json.dump(v, sys.stdout)\<close>: the serializer writes to the
    stream as it goes, so it yields the text written and, when it raised, the message;
  \<^item> \<open>py_repr v\<close> is \<open>str(v)\<close> for a float, a list or a dict (float formatting and the
    quoting of nested strings are left to the interpreter).
\<close>

record ('m, 'img) env =
  sentence_transformer :: "string \<Rightarrow> string + 'm"
  b64decode :: "json \<Rightarrow> string + string"
  image_open :: "string \<Rightarrow> string + 'img"
  image_convert :: "'img \<Rightarrow> string \<Rightarrow> string + 'img"
  image_resize :: "'img \<Rightarrow> nat \<times> nat \<Rightarrow> string + 'img"
  model_encode :: "'m \<Rightarrow> 'img encode_arg \<Rightarrow> string + pyval"
  json_dump :: "pyval \<Rightarrow> string \<times> string option"
  py_repr :: "json \<Rightarrow> string"

text \<open>The log of the calls made to the model and image libraries, in order.\<close>

datatype ('m, 'img) call =
    LoadModel string
  | B64Decode json
  | ImageOpen string
  | Convert 'img string
  | Resize 'img "nat \<times> nat"
  | Encode 'm "'img encode_arg"

fun is_load :: "('m, 'img) call \<Rightarrow> bool" where
  "is_load (LoadModel name) = True"
| "is_load c = False"

fun is_encode :: "('m, 'img) call \<Rightarrow> bool" where
  "is_encode (Encode m arg) = True"
| "is_encode c = False"

text \<open>
  A statement sequence that may raise: the calls made so far, and either the exception
  that ended it or its value.
\<close>

type_synonym ('c, 'a) step = "'c list \<times> (pyexc + 'a)"

definition ret :: "'a \<Rightarrow> ('c, 'a) step" where
  "ret a = ([], Inr a)"

definition raise :: "pyexc \<Rightarrow> ('c, 'a) step" where
  "raise e = ([], Inl e)"

definition lift :: "pyexc + 'a \<Rightarrow> ('c, 'a) step" where
  "lift r = ([], r)"

definition lib_call :: "'c \<Rightarrow> string + 'a \<Rightarrow> ('c, 'a) step" where
  "lib_call c r = ([c], case r of Inl msg \<Rightarrow> Inl (LibraryError msg) | Inr a \<Rightarrow> Inr a)"

definition then_do :: "('c, 'a) step \<Rightarrow> ('a \<Rightarrow> ('c, 'b) step) \<Rightarrow> ('c, 'b) step" where
  "then_do x f =
     (case x of
        (cs, Inl e) \<Rightarrow> (cs, Inl e)
      | (cs, Inr a) \<Rightarrow> (case f a of (cs', r) \<Rightarrow> (cs @ cs', r)))"

subsection \<open>The script\<close>

definition MODEL_NAME :: string where
  "MODEL_NAME = ''clip-ViT-B-32''"

text \<open>Lines 13-14.\<close>

definition load_model :: "('m, 'img) env \<Rightarrow> (('m, 'img) call, 'm) step" where
  "load_model env = lib_call (LoadModel MODEL_NAME) (sentence_transformer env MODEL_NAME)"

text \<open>\<open>hasattr(embedding, "tolist")\<close> and \<open>embedding.tolist()\<close>.\<close>

fun has_tolist :: "pyval \<Rightarrow> bool" where
  "has_tolist (PyArray v) = True"
| "has_tolist v = False"

fun tolist :: "pyval \<Rightarrow> pyval" where
  "tolist (PyArray v) = v"
| "tolist v = v"

text \<open>\<open>isinstance(v, list)\<close>, and the items of a list.\<close>

fun isinstance_list :: "pyval \<Rightarrow> bool" where
  "isinstance_list (PyList xs) = True"
| "isinstance_list v = False"

fun list_items :: "pyval \<Rightarrow> pyval list" where
  "list_items (PyList xs) = xs"
| "list_items v = []"

text \<open>
  The unwrapping test of lines 31-32 in pattern form: a list whose first item is a list
  yields that item, anything else is kept (\<open>unwrap_first_row\<close> below proves the two
  equal).
\<close>

fun first_row :: "pyval \<Rightarrow> pyval" where
  "first_row (PyList (PyList inner # rest)) = PyList inner"
| "first_row v = v"

text \<open>Lines 17-24.\<close>

definition encode_image ::
  "('m, 'img) env \<Rightarrow> 'm \<Rightarrow> json \<Rightarrow> (('m, 'img) call, pyval) step" where
  "encode_image env model image_base64 =
     then_do (lib_call (B64Decode image_base64) (b64decode env image_base64)) (\<lambda>image_bytes.
     then_do (lib_call (ImageOpen image_bytes) (image_open env image_bytes)) (\<lambda>opened.
     then_do (lib_call (Convert opened ''RGB'') (image_convert env opened ''RGB'')) (\<lambda>rgb.
     then_do (lib_call (Resize rgb (224, 224)) (image_resize env rgb (224, 224))) (\<lambda>image.
     then_do (lib_call (Encode model (Item image)) (model_encode env model (Item image))) (\<lambda>embedding.
     if has_tolist embedding then ret (tolist embedding) else ret embedding)))))"

text \<open>Lines 27-33.\<close>

definition encode_text ::
  "('m, 'img) env \<Rightarrow> 'm \<Rightarrow> json \<Rightarrow> (('m, 'img) call, pyval) step" where
  "encode_text env model text =
     then_do (lib_call (Encode model (Batch [text])) (model_encode env model (Batch [text]))) (\<lambda>embedding0.
     let embedding = (if has_tolist embedding0 then tolist embedding0 else embedding0) in
     if isinstance_list embedding \<and> length (list_items embedding) > 0
          \<and> isinstance_list (list_items embedding ! 0)
     then ret (list_items embedding ! 0)
     else ret embedding)"

text \<open>
  \<open>str(mode)\<close> inside the f-string of line 54. A str is itself; an int is its decimal
  numeral; a float, a list or a dict is formatted by the interpreter.
\<close>

fun py_str :: "('m, 'img) env \<Rightarrow> json \<Rightarrow> string" where
  "py_str env (JString s) = s"
| "py_str env (JInt i) = str_int i"
| "py_str env (JBool b) = (if b then ''True'' else ''False'')"
| "py_str env JNull = ''None''"
| "py_str env v = py_repr env v"

text \<open>
  Lines 38-54, the statements of the \<open>try\<close> block up to the value of \<open>output\<close>. The
  argument is what \<open>json.load(sys.stdin)\<close> did: it raised (\<open>Inl\<close> of the message) or
  returned the payload.
\<close>

definition main_try ::
  "('m, 'img) env \<Rightarrow> string + json \<Rightarrow> (('m, 'img) call, pyval) step" where
  "main_try env loaded =
     then_do (case loaded of Inl msg \<Rightarrow> raise (LibraryError msg) | Inr p \<Rightarrow> ret p) (\<lambda>payload.
     then_do (lift (py_get payload ''mode'' JNull)) (\<lambda>mode.
     if \<not> truthy mode then raise (ValueError ''Missing mode'')
     else
       then_do (load_model env) (\<lambda>model.
       if mode = JString ''image'' then
         then_do (lift (py_get payload ''imageBase64'' JNull)) (\<lambda>image_base64.
         if \<not> truthy image_base64 then raise (ValueError ''Missing imageBase64'')
         else encode_image env model image_base64)
       else if mode = JString ''text'' then
         then_do (lift (py_get payload ''text'' (JString ''''))) (\<lambda>text.
         encode_text env model text)
       else raise (ValueError (''Unsupported mode: '' @ py_str env mode)))))"

text \<open>What one run of the process leaves behind.\<close>

record ('m, 'img) outcome =
  stdout :: string
  stderr :: string
  exit_code :: nat
  raised :: "pyexc option"
  calls :: "('m, 'img) call list"

definition failed :: "string \<Rightarrow> pyexc \<Rightarrow> ('m, 'img) call list \<Rightarrow> ('m, 'img) outcome" where
  "failed written e cs =
     \<lparr>stdout = written, stderr = exc_message e @ newline, exit_code = 1,
      raised = Some e, calls = cs\<rparr>"

text \<open>
  Lines 36-59. \<open>json.dump\<close> is the last statement of the \<open>try\<close> block; the handler
  prints \<open>str(exc)\<close> to standard error (\<open>print\<close> appends the newline) and exits with 1.
  A run that raises nothing falls off the end of \<open>main\<close> and exits with 0.
\<close>

definition main :: "('m, 'img) env \<Rightarrow> string + json \<Rightarrow> ('m, 'img) outcome" where
  "main env loaded =
     (case main_try env loaded of
        (cs, Inl e) \<Rightarrow> failed [] e cs
      | (cs, Inr output) \<Rightarrow>
          (case json_dump env output of
             (written, None) \<Rightarrow>
               \<lparr>stdout = written, stderr = [], exit_code = 0, raised = None, calls = cs\<rparr>
           | (written, Some msg) \<Rightarrow> failed written (LibraryError msg) cs))"

subsection \<open>The specification's wording\<close>

text \<open>
  The unwrapping of the text path as the specification words it: a sequence containing
  one inner sequence yields that inner sequence, anything else is returned as it is.
\<close>

fun unwrap_spec :: "pyval \<Rightarrow> pyval" where
  "unwrap_spec (PyList [PyList inner]) = PyList inner"
| "unwrap_spec v = v"

text \<open>The text path with that unwrapping in place of the script's test.\<close>

definition encode_text_spec ::
  "('m, 'img) env \<Rightarrow> 'm \<Rightarrow> json \<Rightarrow> (('m, 'img) call, pyval) step" where
  "encode_text_spec env model text =
     then_do (lib_call (Encode model (Batch [text])) (model_encode env model (Batch [text]))) (\<lambda>embedding.
     ret (unwrap_spec (if has_tolist embedding then tolist embedding else embedding)))"

text \<open>
  The request decoder's failure condition as the specification words it: \<open>mode\<close> is
  absent, or \<open>mode\<close> is \<open>"image"\<close> and \<open>imageBase64\<close> is absent or empty, or \<open>mode\<close>
  is neither \<open>"image"\<close> nor \<open>"text"\<close>.
\<close>

definition spec_request_invalid :: "(string \<times> json) list \<Rightarrow> bool" where
  "spec_request_invalid kvs =
     (map_of kvs ''mode'' = None
      \<or> (map_of kvs ''mode'' = Some (JString ''image'')
          \<and> (map_of kvs ''imageBase64'' = None \<or> map_of kvs ''imageBase64'' = Some (JString [])))
      \<or> (map_of kvs ''mode'' \<noteq> Some (JString ''image'')
          \<and> map_of kvs ''mode'' \<noteq> Some (JString ''text'')))"

text \<open>A text written to a stream is a single line: it ends in its only line break.\<close>

definition single_line :: "string \<Rightarrow> bool" where
  "single_line s = (s \<noteq> [] \<and> last s = CHR 0x0A \<and> CHR 0x0A \<notin> set (butlast s))"

text \<open>
  A run reports a failure: the message and one line break on standard error, exit code
  1, nothing on standard output.
\<close>

definition reports :: "('m, 'img) outcome \<Rightarrow> string \<Rightarrow> bool" where
  "reports out msg = (stderr out = msg @ newline \<and> exit_code out = 1 \<and> stdout out = [])"

text \<open>A text contains another: some suffix of it starts with the other.\<close>

fun starts_with :: "string \<Rightarrow> string \<Rightarrow> bool" where
  "starts_with s [] = True"
| "starts_with [] (p # ps) = False"
| "starts_with (c # s) (p # ps) = (c = p \<and> starts_with s ps)"

fun contains :: "string \<Rightarrow> string \<Rightarrow> bool" where
  "contains [] sub = (sub = [])"
| "contains (c # s) sub = (starts_with (c # s) sub \<or> contains s sub)"

subsection \<open>A stand-in environment\<close>

text \<open>
  To run the script at concrete inputs the library calls need values. The stand-in
  below has a model that loads, a decoder that takes every str as its own bytes, images
  that are a mode with a width and a height, an encoder that returns an array (two
  numbers for an image, one row of two numbers per text, and an error for a text that
  is not a str), and a serializer for flat lists of numbers that writes as it goes.
\<close>

fun demo_float :: "pyfloat \<Rightarrow> string" where
  "demo_float (Finite m e) = str_int m @ ''e'' @ str_int e"
| "demo_float (Infinity negative) = (if negative then ''-Infinity'' else ''Infinity'')"
| "demo_float NaN = ''NaN''"

fun demo_dump_items :: "pyval list \<Rightarrow> string \<times> string option" where
  "demo_dump_items [] = ('']'', None)"
| "demo_dump_items (PyNum f # xs) =
     (case demo_dump_items xs of
        (written, r) \<Rightarrow> (demo_float f @ (if xs = [] then [] else '', '') @ written, r))"
| "demo_dump_items (v # xs) = ([], Some ''Object is not JSON serializable'')"

fun demo_dump :: "pyval \<Rightarrow> string \<times> string option" where
  "demo_dump (PyList xs) = (case demo_dump_items xs of (written, r) \<Rightarrow> (''['' @ written, r))"
| "demo_dump (PyNum f) = (demo_float f, None)"
| "demo_dump v = ([], Some ''Object is not JSON serializable'')"

fun demo_row :: "json \<Rightarrow> pyval" where
  "demo_row (JString s) = PyList [PyNum (Finite (int (length s)) 0), PyNum (Finite 5 (-1))]"
| "demo_row v = PyList []"

fun is_str :: "json \<Rightarrow> bool" where
  "is_str (JString s) = True"
| "is_str v = False"

fun demo_encode :: "unit \<Rightarrow> (string \<times> nat \<times> nat) encode_arg \<Rightarrow> string + pyval" where
  "demo_encode m (Item (mode, w, h)) =
     Inr (PyArray (PyList [PyNum (Finite (int w) 0), PyNum (Finite (int h) 0)]))"
| "demo_encode m (Batch texts) =
     (if list_all is_str texts then Inr (PyArray (PyList (map demo_row texts)))
      else Inl ''text input must be of type str'')"

definition demo_env :: "(unit, string \<times> nat \<times> nat) env" where
  "demo_env =
     \<lparr>sentence_transformer = (\<lambda>name. if name = MODEL_NAME then Inr () else Inl ''no such model''),
      b64decode = (\<lambda>v. case v of JString s \<Rightarrow> Inr s
                       | _ \<Rightarrow> Inl ''a bytes-like object or ASCII string is required''),
      image_open = (\<lambda>bs. if bs = [] then Inl ''cannot identify image file''
                       else Inr (''L'', length bs, 1)),
      image_convert = (\<lambda>(mode, w, h) mode'. Inr (mode', w, h)),
      image_resize = (\<lambda>(mode, w, h) size. Inr (mode, fst size, snd size)),
      model_encode = demo_encode,
      json_dump = demo_dump,
      py_repr = (\<lambda>v. ''<'' @ type_name v @ ''>'')\<rparr>"

text \<open>The same machine without the model's files: constructing the model raises.\<close>

definition offline_env :: "(unit, string \<times> nat \<times> nat) env" where
  "offline_env =
     demo_env\<lparr>sentence_transformer := (\<lambda>name. Inl ''model files are not available'')\<rparr>"

text \<open>A model whose batch encoder returns two rows, whatever the batch.\<close>

definition two_row_env :: "(unit, string \<times> nat \<times> nat) env" where
  "two_row_env =
     demo_env\<lparr>model_encode := (\<lambda>m arg.
       Inr (PyList [PyList [PyNum (Finite 1 0)], PyList [PyNum (Finite 2 0)]]))\<rparr>"

text \<open>A model whose encoder returns a list that ends in an object no serializer knows.\<close>

definition opaque_env :: "(unit, string \<times> nat \<times> nat) env" where
  "opaque_env =
     demo_env\<lparr>model_encode := (\<lambda>m arg. Inr (PyList [PyNum (Finite 1 0), PyOther ''tensor'']))\<rparr>"

section \<open>Properties\<close>

subsection \<open>Sequencing\<close>

lemma then_do_Inl [simp]: "then_do (cs, Inl e) f = (cs, Inl e)"
  by (simp add: then_do_def)

lemma then_do_Inr [simp]: "then_do (cs, Inr a) f = (cs @ fst (f a), snd (f a))"
  by (simp add: then_do_def split: prod.splits)

lemma lib_call_Inl [simp]: "lib_call c (Inl msg) = ([c], Inl (LibraryError msg))"
  by (simp add: lib_call_def)

lemma lib_call_Inr [simp]: "lib_call c (Inr a) = ([c], Inr a)"
  by (simp add: lib_call_def)

subsection \<open>The two encoders\<close>

lemma encode_image_success:
  assumes "b64decode env b = Inr bytes"
    and "image_open env bytes = Inr opened"
    and "image_convert env opened ''RGB'' = Inr rgb"
    and "image_resize env rgb (224, 224) = Inr img"
    and "model_encode env m (Item img) = Inr embedding"
  shows "encode_image env m b =
    ([B64Decode b, ImageOpen bytes, Convert opened ''RGB'', Resize rgb (224, 224),
      Encode m (Item img)],
     Inr (if has_tolist embedding then tolist embedding else embedding))"
  using assms by (simp add: encode_image_def ret_def)

lemma encode_image_no_load: "c \<in> set (fst (encode_image env m b)) \<Longrightarrow> \<not> is_load c"
  by (auto simp: encode_image_def then_do_def lib_call_def ret_def split: sum.splits if_splits prod.splits)

lemma encode_image_encode_once: "length (filter is_encode (fst (encode_image env m b))) \<le> 1"
  by (auto simp: encode_image_def then_do_def lib_call_def ret_def split: sum.splits if_splits prod.splits)

lemma encode_image_encode_model:
  "Encode m' a \<in> set (fst (encode_image env m b)) \<Longrightarrow> m' = m"
  by (auto simp: encode_image_def then_do_def lib_call_def ret_def split: sum.splits if_splits prod.splits)

lemma encode_image_returns_encoded:
  "snd (encode_image env m b) = Inr out \<Longrightarrow> length (filter is_encode (fst (encode_image env m b))) = 1"
  by (auto simp: encode_image_def then_do_def lib_call_def ret_def split: sum.splits if_splits prod.splits)

lemma encode_text_run:
  "encode_text env m t =
     ([Encode m (Batch [t])],
      case model_encode env m (Batch [t]) of
        Inl msg \<Rightarrow> Inl (LibraryError msg)
      | Inr e0 \<Rightarrow>
          (let e = (if has_tolist e0 then tolist e0 else e0) in
           Inr (if isinstance_list e \<and> length (list_items e) > 0 \<and> isinstance_list (list_items e ! 0)
                then list_items e ! 0 else e)))"
  by (auto simp: encode_text_def then_do_def lib_call_def ret_def Let_def split: sum.splits if_splits prod.splits)


lemma encode_text_calls [simp]: "fst (encode_text env m t) = [Encode m (Batch [t])]"
  by (simp add: encode_text_run)

subsection \<open>The paths through the try block\<close>

lemma main_try_load_raised: "main_try env (Inl msg) = ([], Inl (LibraryError msg))"
  by (simp add: main_try_def raise_def)

lemma main_try_not_dict:
  "\<forall>kvs. p \<noteq> JObject kvs \<Longrightarrow> \<exists>msg. main_try env (Inr p) = ([], Inl (AttributeError msg))"
  by (cases p) (simp_all add: main_try_def ret_def lift_def)

lemma main_try_missing_mode:
  "\<not> truthy (dict_get kvs ''mode'' JNull) \<Longrightarrow>
   main_try env (Inr (JObject kvs)) = ([], Inl (ValueError ''Missing mode''))"
  by (simp add: main_try_def ret_def lift_def raise_def)

lemma main_try_model_failed:
  "truthy (dict_get kvs ''mode'' JNull) \<Longrightarrow> sentence_transformer env MODEL_NAME = Inl msg \<Longrightarrow>
   main_try env (Inr (JObject kvs)) = ([LoadModel MODEL_NAME], Inl (LibraryError msg))"
  by (simp add: main_try_def ret_def lift_def load_model_def)

lemma main_try_missing_image:
  "dict_get kvs ''mode'' JNull = JString ''image'' \<Longrightarrow> sentence_transformer env MODEL_NAME = Inr m \<Longrightarrow>
   \<not> truthy (dict_get kvs ''imageBase64'' JNull) \<Longrightarrow>
   main_try env (Inr (JObject kvs)) = ([LoadModel MODEL_NAME], Inl (ValueError ''Missing imageBase64''))"
  by (simp add: main_try_def ret_def lift_def load_model_def raise_def)

lemma main_try_image:
  "dict_get kvs ''mode'' JNull = JString ''image'' \<Longrightarrow> sentence_transformer env MODEL_NAME = Inr m \<Longrightarrow>
   truthy (dict_get kvs ''imageBase64'' JNull) \<Longrightarrow>
   main_try env (Inr (JObject kvs)) =
     (LoadModel MODEL_NAME # fst (encode_image env m (dict_get kvs ''imageBase64'' JNull)),
      snd (encode_image env m (dict_get kvs ''imageBase64'' JNull)))"
  by (simp add: main_try_def ret_def lift_def load_model_def)

lemma main_try_text:
  "dict_get kvs ''mode'' JNull = JString ''text'' \<Longrightarrow> sentence_transformer env MODEL_NAME = Inr m \<Longrightarrow>
   main_try env (Inr (JObject kvs)) =
     ([LoadModel MODEL_NAME, Encode m (Batch [dict_get kvs ''text'' (JString [])])],
      snd (encode_text env m (dict_get kvs ''text'' (JString []))))"
  by (simp add: main_try_def ret_def lift_def load_model_def)

lemma main_try_unsupported:
  "truthy (dict_get kvs ''mode'' JNull) \<Longrightarrow> dict_get kvs ''mode'' JNull \<noteq> JString ''image'' \<Longrightarrow>
   dict_get kvs ''mode'' JNull \<noteq> JString ''text'' \<Longrightarrow> sentence_transformer env MODEL_NAME = Inr m \<Longrightarrow>
   main_try env (Inr (JObject kvs)) =
     ([LoadModel MODEL_NAME],
      Inl (ValueError (''Unsupported mode: '' @ py_str env (dict_get kvs ''mode'' JNull))))"
  by (simp add: main_try_def ret_def lift_def load_model_def raise_def)

lemma main_try_cases
  [case_names load_raised not_dict missing_mode model_failed missing_image image_mode text_mode unsupported]:
  obtains
    msg where "loaded = Inl msg" "main_try env loaded = ([], Inl (LibraryError msg))"
  | p msg where "loaded = Inr p" "\<forall>kvs. p \<noteq> JObject kvs"
      "main_try env loaded = ([], Inl (AttributeError msg))"
  | kvs where "loaded = Inr (JObject kvs)" "\<not> truthy (dict_get kvs ''mode'' JNull)"
      "main_try env loaded = ([], Inl (ValueError ''Missing mode''))"
  | kvs msg where "loaded = Inr (JObject kvs)" "truthy (dict_get kvs ''mode'' JNull)"
      "sentence_transformer env MODEL_NAME = Inl msg"
      "main_try env loaded = ([LoadModel MODEL_NAME], Inl (LibraryError msg))"
  | kvs m where "loaded = Inr (JObject kvs)" "dict_get kvs ''mode'' JNull = JString ''image''"
      "sentence_transformer env MODEL_NAME = Inr m"
      "\<not> truthy (dict_get kvs ''imageBase64'' JNull)"
      "main_try env loaded = ([LoadModel MODEL_NAME], Inl (ValueError ''Missing imageBase64''))"
  | kvs m where "loaded = Inr (JObject kvs)" "dict_get kvs ''mode'' JNull = JString ''image''"
      "sentence_transformer env MODEL_NAME = Inr m"
      "truthy (dict_get kvs ''imageBase64'' JNull)"
      "main_try env loaded =
         (LoadModel MODEL_NAME # fst (encode_image env m (dict_get kvs ''imageBase64'' JNull)),
          snd (encode_image env m (dict_get kvs ''imageBase64'' JNull)))"
  | kvs m where "loaded = Inr (JObject kvs)" "dict_get kvs ''mode'' JNull = JString ''text''"
      "sentence_transformer env MODEL_NAME = Inr m"
      "main_try env loaded =
         ([LoadModel MODEL_NAME, Encode m (Batch [dict_get kvs ''text'' (JString [])])],
          snd (encode_text env m (dict_get kvs ''text'' (JString []))))"
  | kvs m where "loaded = Inr (JObject kvs)" "truthy (dict_get kvs ''mode'' JNull)"
      "dict_get kvs ''mode'' JNull \<noteq> JString ''image''"
      "dict_get kvs ''mode'' JNull \<noteq> JString ''text''"
      "sentence_transformer env MODEL_NAME = Inr m"
      "main_try env loaded =
         ([LoadModel MODEL_NAME],
          Inl (ValueError (''Unsupported mode: '' @ py_str env (dict_get kvs ''mode'' JNull))))"
proof (cases loaded)
  case (Inl msg)
  show ?thesis
    by (rule that(1) [of msg]) (simp_all add: Inl main_try_load_raised)
next
  case (Inr p)
  show ?thesis
  proof (cases "\<exists>kvs. p = JObject kvs")
    case False
    then have np: "\<forall>kvs. p \<noteq> JObject kvs" by simp
    from main_try_not_dict [OF np, of env]
    obtain msg where "main_try env (Inr p) = ([], Inl (AttributeError msg))" ..
    then show ?thesis
      using that(2) [of p msg] Inr np by simp
  next
    case True
    then obtain kvs where p: "p = JObject kvs" ..
    have l: "loaded = Inr (JObject kvs)" using Inr p by simp
    show ?thesis
    proof (cases "truthy (dict_get kvs ''mode'' JNull)")
      case False
      show ?thesis
        by (rule that(3) [OF l False]) (simp add: l main_try_missing_mode [OF False])
    next
      case mode: True
      show ?thesis
      proof (cases "sentence_transformer env MODEL_NAME")
        case (Inl msg)
        show ?thesis
          by (rule that(4) [OF l mode Inl]) (simp add: l main_try_model_failed [OF mode Inl])
      next
        case m: (Inr m)
        show ?thesis
        proof (cases "dict_get kvs ''mode'' JNull = JString ''image''")
          case img: True
          show ?thesis
          proof (cases "truthy (dict_get kvs ''imageBase64'' JNull)")
            case False
            show ?thesis
              by (rule that(5) [OF l img m False])
                (simp add: l main_try_missing_image [OF img m False])
          next
            case True
            show ?thesis
              by (rule that(6) [OF l img m True]) (simp add: l main_try_image [OF img m True])
          qed
        next
          case nimg: False
          show ?thesis
          proof (cases "dict_get kvs ''mode'' JNull = JString ''text''")
            case True
            show ?thesis
              by (rule that(7) [OF l True m]) (simp add: l main_try_text [OF True m])
          next
            case False
            show ?thesis
              by (rule that(8) [OF l mode nimg False m])
                (simp add: l main_try_unsupported [OF mode nimg False m])
          qed
        qed
      qed
    qed
  qed
qed

subsection \<open>From the value of the try block to the outcome of the process\<close>

lemma main_of_raise: "main_try env loaded = (cs, Inl e) \<Longrightarrow> main env loaded = failed [] e cs"
  by (simp add: main_def)

lemma main_of_value:
  "main_try env loaded = (cs, Inr output) \<Longrightarrow> json_dump env output = (written, None) \<Longrightarrow>
   main env loaded =
     \<lparr>stdout = written, stderr = [], exit_code = 0, raised = None, calls = cs\<rparr>"
  by (simp add: main_def)

lemma main_of_dump_raise:
  "main_try env loaded = (cs, Inr output) \<Longrightarrow> json_dump env output = (written, Some msg) \<Longrightarrow>
   main env loaded = failed written (LibraryError msg) cs"
  by (simp add: main_def)

lemma calls_main [simp]: "calls (main env loaded) = fst (main_try env loaded)"
  by (simp add: main_def failed_def split: prod.splits sum.splits option.splits)

lemma dict_get_Some: "map_of kvs key = Some v \<Longrightarrow> dict_get kvs key dflt = v"
  by (simp add: dict_get_def)

lemma dict_get_None: "map_of kvs key = None \<Longrightarrow> dict_get kvs key dflt = dflt"
  by (simp add: dict_get_def)

text \<open>The try block reads three keys of the payload and nothing else.\<close>

lemma main_try_depends:
  assumes "dict_get kvs ''mode'' JNull = dict_get kvs' ''mode'' JNull"
    and "dict_get kvs ''imageBase64'' JNull = dict_get kvs' ''imageBase64'' JNull"
    and "dict_get kvs ''text'' (JString []) = dict_get kvs' ''text'' (JString [])"
  shows "main_try env (Inr (JObject kvs)) = main_try env (Inr (JObject kvs'))"
  using assms by (simp add: main_try_def ret_def lift_def cong: if_cong)

lemma main_depends:
  assumes "dict_get kvs ''mode'' JNull = dict_get kvs' ''mode'' JNull"
    and "dict_get kvs ''imageBase64'' JNull = dict_get kvs' ''imageBase64'' JNull"
    and "dict_get kvs ''text'' (JString []) = dict_get kvs' ''text'' (JString [])"
  shows "main env (Inr (JObject kvs)) = main env (Inr (JObject kvs'))"
  by (simp add: main_def main_try_depends [OF assms])

subsection \<open>Evaluating the script at a concrete input\<close>

lemmas script_defs =
  main_def main_try_def encode_image_def encode_text_def load_model_def failed_def
  then_do_def lib_call_def ret_def raise_def lift_def dict_get_def newline_def MODEL_NAME_def

lemmas stand_in_defs = demo_env_def offline_env_def two_row_env_def opaque_env_def

subsection \<open>Texts\<close>

lemma starts_with_append: "starts_with (sub @ rest) sub"
  by (induction sub) simp_all

lemma contains_here: "starts_with s sub \<Longrightarrow> contains s sub"
  by (cases s; cases sub) simp_all

lemma contains_append: "contains (before @ sub @ rest) sub"
proof (induction before)
  case Nil
  show ?case by (simp add: contains_here starts_with_append)
next
  case (Cons c before)
  then show ?case by simp
qed

subsection \<open>What the try block can raise, and when the process exits with 0\<close>

lemma encode_image_no_value_error: "snd (encode_image env m b) \<noteq> Inl (ValueError msg)"
  by (auto simp: encode_image_def then_do_def lib_call_def ret_def split: sum.splits if_splits prod.splits)

lemma encode_text_no_value_error: "snd (encode_text env m t) \<noteq> Inl (ValueError msg)"
  by (simp add: encode_text_run Let_def split: sum.splits)

lemma raised_value_error:
  "raised (main env loaded) = Some (ValueError msg) \<longleftrightarrow> snd (main_try env loaded) = Inl (ValueError msg)"
  by (auto simp: main_def failed_def split: prod.splits sum.splits option.splits)

lemma exit_code_cases: "exit_code (main env loaded) = 0 \<or> exit_code (main env loaded) = 1"
  by (simp add: main_def failed_def split: prod.splits sum.splits option.splits)

lemma exit_zero_returned:
  "exit_code (main env loaded) = 0 \<Longrightarrow> \<exists>outp. snd (main_try env loaded) = Inr outp"
  by (auto simp: main_def failed_def split: prod.splits sum.splits option.splits)

lemma failed_early: "main_try env loaded = (cs, Inl e) \<Longrightarrow>
    exit_code (main env loaded) = 1 \<and> stdout (main env loaded) = []"
  by (simp add: main_of_raise failed_def)

subsection \<open>The calls of a run\<close>

lemma load_only_after_mode:
  assumes "c \<in> set (fst (main_try env loaded))" and "is_load c"
  shows "c = LoadModel MODEL_NAME
    \<and> (\<exists>kvs. loaded = Inr (JObject kvs) \<and> truthy (dict_get kvs ''mode'' JNull))"
proof (cases rule: main_try_cases [of loaded env])
  case (image_mode kvs m)
  have "c = LoadModel MODEL_NAME"
    using assms encode_image_no_load [of c env m] by (auto simp: image_mode(5))
  then show ?thesis using image_mode(1,2) by simp
next
  case (text_mode kvs m)
  then show ?thesis using assms by auto
qed (use assms in auto)

lemma load_first:
  assumes "loaded = Inr (JObject kvs)" and "truthy (dict_get kvs ''mode'' JNull)"
  shows "take 1 (fst (main_try env loaded)) = [LoadModel MODEL_NAME]"
  by (cases rule: main_try_cases [of loaded env]) (use assms in auto)

lemma load_at_most_once: "length (filter is_load (fst (main_try env loaded))) \<le> 1"
proof (cases rule: main_try_cases [of loaded env])
  case (image_mode kvs m)
  have "filter is_load (fst (encode_image env m (dict_get kvs ''imageBase64'' JNull))) = []"
    using encode_image_no_load [of _ env m] by (simp add: filter_empty_conv)
  then show ?thesis by (simp add: image_mode(5))
qed simp_all

lemma encode_at_most_once: "length (filter is_encode (fst (main_try env loaded))) \<le> 1"
proof (cases rule: main_try_cases [of loaded env])
  case (image_mode kvs m)
  then show ?thesis
    using encode_image_encode_once [of env m "dict_get kvs ''imageBase64'' JNull"] by simp
qed simp_all

lemma encode_needs_model:
  assumes "Encode m arg \<in> set (fst (main_try env loaded))"
  shows "sentence_transformer env MODEL_NAME = Inr m
    \<and> take 1 (fst (main_try env loaded)) = [LoadModel MODEL_NAME]
    \<and> (\<exists>kvs. loaded = Inr (JObject kvs)
         \<and> (dict_get kvs ''mode'' JNull = JString ''image''
              \<and> truthy (dict_get kvs ''imageBase64'' JNull)
            \<or> dict_get kvs ''mode'' JNull = JString ''text''))"
proof (cases rule: main_try_cases [of loaded env])
  case (image_mode kvs m')
  have "m = m'"
    using assms encode_image_encode_model [of m arg env m'] by (auto simp: image_mode(5))
  then show ?thesis using image_mode by simp
next
  case (text_mode kvs m')
  then show ?thesis using assms by auto
qed (use assms in auto)

lemma returned_encoded_once:
  assumes "snd (main_try env loaded) = Inr outp"
  shows "length (filter is_encode (fst (main_try env loaded))) = 1"
proof (cases rule: main_try_cases [of loaded env])
  case (image_mode kvs m)
  then show ?thesis using assms by (simp add: encode_image_returns_encoded)
qed (use assms in auto)

subsection \<open>Lines of text\<close>

lemma single_line_append:
  "CHR 0x0A \<notin> set msg \<Longrightarrow> single_line (msg @ newline)"
  by (simp add: single_line_def newline_def)

lemma single_line_append_iff:
  "single_line (msg @ newline) \<longleftrightarrow> CHR 0x0A \<notin> set msg"
  by (simp add: single_line_def newline_def)

subsection \<open>The unwrapping of the text path\<close>

lemma encode_text_spec_run:
  "encode_text_spec env m t =
     ([Encode m (Batch [t])],
      case model_encode env m (Batch [t]) of
        Inl msg \<Rightarrow> Inl (LibraryError msg)
      | Inr e0 \<Rightarrow> Inr (unwrap_spec (if has_tolist e0 then tolist e0 else e0)))"
  by (simp add: encode_text_spec_def then_do_def lib_call_def ret_def split: sum.splits)

lemma unwrap_first_row:
  "(if isinstance_list e \<and> length (list_items e) > 0 \<and> isinstance_list (list_items e ! 0)
    then ret (list_items e ! 0) else ret e) = ret (first_row e)"
  by (cases e rule: first_row.cases) simp_all

lemma unwrap_spec_short:
  "\<nexists>x y rest. e = PyList (x # y # rest) \<Longrightarrow> unwrap_spec e = first_row e"
  by (cases e rule: unwrap_spec.cases) simp_all

lemma encode_text_first_row:
  "encode_text env m t =
     ([Encode m (Batch [t])],
      case model_encode env m (Batch [t]) of
        Inl msg \<Rightarrow> Inl (LibraryError msg)
      | Inr e0 \<Rightarrow> Inr (first_row (if has_tolist e0 then tolist e0 else e0)))"
proof -
  have "encode_text env m t =
      then_do (lib_call (Encode m (Batch [t])) (model_encode env m (Batch [t])))
        (\<lambda>e0. ret (first_row (if has_tolist e0 then tolist e0 else e0)))"
    by (simp only: encode_text_def Let_def unwrap_first_row)
  then show ?thesis
    by (simp add: then_do_def lib_call_def ret_def split: sum.splits)
qed

lemma encode_text_returns:
  "model_encode env m (Batch [t]) = Inr e0 \<Longrightarrow>
   snd (encode_text env m t) = Inr (first_row (if has_tolist e0 then tolist e0 else e0))"
  by (simp add: encode_text_first_row)

subsection \<open>The failure of each stage, and what is serialized\<close>

lemma encode_image_b64_raises:
  "b64decode env b = Inl msg \<Longrightarrow>
   encode_image env m b = ([B64Decode b], Inl (LibraryError msg))"
  by (simp add: encode_image_def)

lemma encode_image_open_raises:
  "b64decode env b = Inr bytes \<Longrightarrow> image_open env bytes = Inl msg \<Longrightarrow>
   encode_image env m b = ([B64Decode b, ImageOpen bytes], Inl (LibraryError msg))"
  by (simp add: encode_image_def)

lemma encode_image_convert_raises:
  "b64decode env b = Inr bytes \<Longrightarrow> image_open env bytes = Inr opened \<Longrightarrow>
   image_convert env opened ''RGB'' = Inl msg \<Longrightarrow>
   encode_image env m b =
     ([B64Decode b, ImageOpen bytes, Convert opened ''RGB''], Inl (LibraryError msg))"
  by (simp add: encode_image_def)

lemma encode_image_resize_raises:
  "b64decode env b = Inr bytes \<Longrightarrow> image_open env bytes = Inr opened \<Longrightarrow>
   image_convert env opened ''RGB'' = Inr rgb \<Longrightarrow> image_resize env rgb (224, 224) = Inl msg \<Longrightarrow>
   encode_image env m b =
     ([B64Decode b, ImageOpen bytes, Convert opened ''RGB'', Resize rgb (224, 224)],
      Inl (LibraryError msg))"
  by (simp add: encode_image_def)

lemma encode_image_encode_raises:
  "b64decode env b = Inr bytes \<Longrightarrow> image_open env bytes = Inr opened \<Longrightarrow>
   image_convert env opened ''RGB'' = Inr rgb \<Longrightarrow> image_resize env rgb (224, 224) = Inr img \<Longrightarrow>
   model_encode env m (Item img) = Inl msg \<Longrightarrow>
   encode_image env m b =
     ([B64Decode b, ImageOpen bytes, Convert opened ''RGB'', Resize rgb (224, 224),
       Encode m (Item img)],
      Inl (LibraryError msg))"
  by (simp add: encode_image_def)

lemma reports_raise:
  "main_try env loaded = (cs, Inl e) \<Longrightarrow> reports (main env loaded) (exc_message e)"
  by (simp add: main_of_raise failed_def reports_def)


lemma main_try_not_dict_message:
  "\<nexists>kvs. p = JObject kvs \<Longrightarrow>
   main_try env (Inr p) =
     ([], Inl (AttributeError
        (quote @ type_name p @ quote @ '' object has no attribute '' @ quote @ ''get'' @ quote)))"
  by (cases p) (simp_all add: main_try_def ret_def lift_def)

lemma outcome_three_ways:
  "(\<exists>cs outp written.
       main_try env loaded = (cs, Inr outp) \<and> json_dump env outp = (written, None)
       \<and> main env loaded =
           \<lparr>stdout = written, stderr = [], exit_code = 0, raised = None, calls = cs\<rparr>)
   \<or> (\<exists>cs e.
       main_try env loaded = (cs, Inl e)
       \<and> main env loaded =
           \<lparr>stdout = [], stderr = exc_message e @ newline, exit_code = 1, raised = Some e,
            calls = cs\<rparr>)
   \<or> (\<exists>cs outp written msg.
       main_try env loaded = (cs, Inr outp) \<and> json_dump env outp = (written, Some msg)
       \<and> main env loaded =
           \<lparr>stdout = written, stderr = msg @ newline, exit_code = 1,
            raised = Some (LibraryError msg), calls = cs\<rparr>)"
proof (cases "main_try env loaded")
  case (Pair cs r)
  show ?thesis
  proof (cases r)
    case (Inl e)
    then show ?thesis
      using Pair by (simp add: main_of_raise failed_def)
  next
    case (Inr outp)
    obtain written r' where d: "json_dump env outp = (written, r')"
      by (cases "json_dump env outp")
    show ?thesis
    proof (cases r')
      case None
      then show ?thesis
        using Pair Inr d by (simp add: main_of_value)
    next
      case (Some msg)
      then show ?thesis
        using Pair Inr d by (simp add: main_of_dump_raise failed_def)
    qed
  qed
qed

lemma raised_single_line:
  "\<forall>e. raised (main env loaded) = Some e \<longrightarrow>
     (single_line (stderr (main env loaded)) \<longleftrightarrow> CHR 0x0A \<notin> set (exc_message e))"
  using outcome_three_ways [of env loaded]
  by (auto simp: single_line_append_iff)

lemma serialized:
  assumes "main_try env loaded = (cs, Inr outp)" and "json_dump env outp = (written, r)"
  shows "(r = None \<longrightarrow>
            stdout (main env loaded) = written \<and> stderr (main env loaded) = []
            \<and> exit_code (main env loaded) = 0)
       \<and> (\<forall>msg. r = Some msg \<longrightarrow>
            stdout (main env loaded) = written \<and> stderr (main env loaded) = msg @ newline
            \<and> exit_code (main env loaded) = 1)"
  using assms by (cases r) (simp_all add: main_of_value main_of_dump_raise failed_def)

section \<open>The claims\<close>

subsection \<open>C1: the image path\<close>

text \<open>
  C1. For a request with mode \<open>"image"\<close> whose \<open>imageBase64\<close> value is truthy, when the
  model loads, the payload decodes, the bytes open as an image and the image library and
  the model do their work, the script makes exactly these calls in this order: construct
  the model, decode the base64 payload, open the bytes as an image, convert it to
  \<open>"RGB"\<close>, resize it to \<open>(224, 224)\<close> and encode the resized image as a single item.
  That is the only call of the encoder, and the value handed to the serializer is the
  encoder's result after \<open>tolist()\<close> where the result has that method: for an array
  the plain list it holds, and a result that already is a plain list unchanged.
\<close>

theorem image_path:
  assumes "map_of kvs ''mode'' = Some (JString ''image'')"
    and "map_of kvs ''imageBase64'' = Some b" and "truthy b"
    and "sentence_transformer env MODEL_NAME = Inr m"
    and "b64decode env b = Inr bytes"
    and "image_open env bytes = Inr opened"
    and "image_convert env opened ''RGB'' = Inr rgb"
    and "image_resize env rgb (224, 224) = Inr img"
    and "model_encode env m (Item img) = Inr embedding"
  shows "main_try env (Inr (JObject kvs)) =
      ([LoadModel MODEL_NAME, B64Decode b, ImageOpen bytes, Convert opened ''RGB'',
        Resize rgb (224, 224), Encode m (Item img)],
       Inr (if has_tolist embedding then tolist embedding else embedding))
    \<and> filter is_encode (calls (main env (Inr (JObject kvs)))) = [Encode m (Item img)]
    \<and> (\<forall>v. embedding = PyArray v \<longrightarrow> snd (main_try env (Inr (JObject kvs))) = Inr v)
    \<and> (\<forall>xs. embedding = PyList xs \<longrightarrow>
          snd (main_try env (Inr (JObject kvs))) = Inr (PyList xs))"
proof -
  have mode: "dict_get kvs ''mode'' JNull = JString ''image''"
    using assms(1) by (rule dict_get_Some)
  have b: "dict_get kvs ''imageBase64'' JNull = b"
    using assms(2) by (rule dict_get_Some)
  have enc: "encode_image env m b =
      ([B64Decode b, ImageOpen bytes, Convert opened ''RGB'', Resize rgb (224, 224),
        Encode m (Item img)],
       Inr (if has_tolist embedding then tolist embedding else embedding))"
    using assms(5-9) by (rule encode_image_success)
  have run: "main_try env (Inr (JObject kvs)) =
      ([LoadModel MODEL_NAME, B64Decode b, ImageOpen bytes, Convert opened ''RGB'',
        Resize rgb (224, 224), Encode m (Item img)],
       Inr (if has_tolist embedding then tolist embedding else embedding))"
    using main_try_image [OF mode assms(4)] assms(3) by (simp add: b enc)
  show ?thesis
    by (simp add: run)
qed

theorem image_path_witness:
  "main_try demo_env
     (Inr (JObject [(''mode'', JString ''image''), (''imageBase64'', JString ''iVBORw0KGgo='')])) =
     ([LoadModel MODEL_NAME, B64Decode (JString ''iVBORw0KGgo=''), ImageOpen ''iVBORw0KGgo='',
       Convert (''L'', 12, 1) ''RGB'', Resize (''RGB'', 12, 1) (224, 224),
       Encode () (Item (''RGB'', 224, 224))],
      Inr (PyList [PyNum (Finite 224 0), PyNum (Finite 224 0)]))
   \<and> stdout (main demo_env
     (Inr (JObject [(''mode'', JString ''image''), (''imageBase64'', JString ''iVBORw0KGgo='')]))) =
     ''[224e0, 224e0]''"
  using image_path [of "[(''mode'', JString ''image''), (''imageBase64'', JString ''iVBORw0KGgo='')]"
      "JString ''iVBORw0KGgo=''" demo_env "()" "''iVBORw0KGgo=''" "(''L'', 12, 1)" "(''RGB'', 12, 1)"
      "(''RGB'', 224, 224)" "PyArray (PyList [PyNum (Finite 224 0), PyNum (Finite 224 0)])"]
  by (simp add: demo_env_def MODEL_NAME_def main_def str_int_def str_nat.simps digit_char_def)

subsection \<open>C2: the text path\<close>

text \<open>
  C2, as the claim states it, fails: the script unwraps whenever the result is a list
  that is not empty and whose first item is a list, however many items follow. For an
  encoder that returns two rows the script returns the first row, where the
  specification's wording (one inner sequence is unwrapped, anything else is returned
  as it is) returns both.
\<close>

theorem text_path_counterexample:
  "snd (encode_text two_row_env () (JString ''a dog'')) = Inr (PyList [PyNum (Finite 1 0)])
   \<and> snd (encode_text_spec two_row_env () (JString ''a dog'')) =
     Inr (PyList [PyList [PyNum (Finite 1 0)], PyList [PyNum (Finite 2 0)]])"
  by (simp add: encode_text_run encode_text_spec_run stand_in_defs)

text \<open>
  C2, amended. For every text the text path calls the encoder exactly once, on the
  one-element batch holding the text (which may be empty), and passes on an exception
  of the encoder. Otherwise it takes the result, after \<open>tolist()\<close> where the result has
  that method, and unwraps it: if and only if it is a list that is not empty and whose
  first item is itself a list, that first item is returned; otherwise it is returned as
  it is. Whenever the result has at most one item this is the unwrapping the
  specification words.
\<close>

theorem text_path:
  "fst (encode_text env m t) = [Encode m (Batch [t])]
   \<and> (\<forall>msg. model_encode env m (Batch [t]) = Inl msg \<longrightarrow>
         snd (encode_text env m t) = Inl (LibraryError msg))
   \<and> (\<forall>e0 e. model_encode env m (Batch [t]) = Inr e0
         \<and> e = (if has_tolist e0 then tolist e0 else e0) \<longrightarrow>
         (\<forall>inner rest. e = PyList (PyList inner # rest) \<longrightarrow>
            snd (encode_text env m t) = Inr (PyList inner))
         \<and> ((\<nexists>inner rest. e = PyList (PyList inner # rest)) \<longrightarrow>
            snd (encode_text env m t) = Inr e)
         \<and> ((\<nexists>x y rest. e = PyList (x # y # rest)) \<longrightarrow>
            encode_text env m t = encode_text_spec env m t))"
proof (intro conjI allI impI)
  show "fst (encode_text env m t) = [Encode m (Batch [t])]"
    by simp
next
  fix msg
  assume "model_encode env m (Batch [t]) = Inl msg"
  then show "snd (encode_text env m t) = Inl (LibraryError msg)"
    by (simp add: encode_text_run)
next
  fix e0 e inner rest
  assume a: "model_encode env m (Batch [t]) = Inr e0 \<and> e = (if has_tolist e0 then tolist e0 else e0)"
    and e: "e = PyList (PyList inner # rest)"
  from a have r: "snd (encode_text env m t) = Inr (first_row e)"
    using encode_text_returns [of env m t e0] by simp
  then show "snd (encode_text env m t) = Inr (PyList inner)"
    by (simp add: e)
next
  fix e0 e
  assume a: "model_encode env m (Batch [t]) = Inr e0 \<and> e = (if has_tolist e0 then tolist e0 else e0)"
    and e: "\<nexists>inner rest. e = PyList (PyList inner # rest)"
  from a have r: "snd (encode_text env m t) = Inr (first_row e)"
    using encode_text_returns [of env m t e0] by simp
  moreover have "first_row e = e"
    using e by (cases e rule: first_row.cases) simp_all
  ultimately show "snd (encode_text env m t) = Inr e"
    by simp
next
  fix e0 e
  assume a: "model_encode env m (Batch [t]) = Inr e0 \<and> e = (if has_tolist e0 then tolist e0 else e0)"
    and short: "\<nexists>x y rest. e = PyList (x # y # rest)"
  from a have r: "snd (encode_text env m t) = Inr (first_row e)"
    using encode_text_returns [of env m t e0] by simp
  then have "snd (encode_text env m t) = Inr (unwrap_spec e)"
    using unwrap_spec_short [OF short] by simp
  moreover have "snd (encode_text_spec env m t) = Inr (unwrap_spec e)"
    using a by (simp add: encode_text_spec_run)
  ultimately show "encode_text env m t = encode_text_spec env m t"
    by (simp add: prod_eq_iff encode_text_spec_run)
qed

theorem text_path_witness:
  "encode_text demo_env () (JString ''a dog'') =
     ([Encode () (Batch [JString ''a dog''])], Inr (PyList [PyNum (Finite 5 0), PyNum (Finite 5 (-1))]))
   \<and> encode_text demo_env () (JString ''a dog'') = encode_text_spec demo_env () (JString ''a dog'')"
proof -
  let ?row = "PyList [PyNum (Finite 5 0), PyNum (Finite 5 (-1))]"
  have enc: "model_encode demo_env () (Batch [JString ''a dog'']) = Inr (PyArray (PyList [?row]))
      \<and> PyList [?row] = (if has_tolist (PyArray (PyList [?row])) then tolist (PyArray (PyList [?row]))
           else PyArray (PyList [?row]))"
    by (simp add: demo_env_def)
  note t = text_path [of demo_env "()" "JString ''a dog''"]
  note calls = t [THEN conjunct1]
  note shape = t [THEN conjunct2, THEN conjunct2, THEN spec, THEN spec, THEN mp, OF enc]
  have "snd (encode_text demo_env () (JString ''a dog'')) = Inr ?row"
    using shape [THEN conjunct1] by simp
  moreover have "encode_text demo_env () (JString ''a dog'') = encode_text_spec demo_env () (JString ''a dog'')"
    using shape [THEN conjunct2, THEN conjunct2] by simp
  ultimately show ?thesis
    using calls by (simp add: prod_eq_iff)
qed

subsection \<open>C3: which requests fail validation\<close>

text \<open>
  C3, as the claim states it, fails: the image branch tests \<open>if not image_base64\<close>, so
  an \<open>imageBase64\<close> that is present and not empty but falsy is rejected as missing. With
  \<open>"imageBase64": 0\<close> the specification's condition does not hold, and the script raises
  \<open>ValueError("Missing imageBase64")\<close>.
\<close>

theorem request_validation_counterexample:
  "\<not> spec_request_invalid [(''mode'', JString ''image''), (''imageBase64'', JInt 0)]
   \<and> raised (main demo_env (Inr (JObject [(''mode'', JString ''image''), (''imageBase64'', JInt 0)]))) =
     Some (ValueError ''Missing imageBase64'')"
  by (simp add: spec_request_invalid_def script_defs stand_in_defs)

text \<open>
  C3, amended. For every JSON object, the script raises one of its own \<open>ValueError\<close>s
  exactly when \<open>mode\<close> is absent or falsy, or the model has been constructed and either
  \<open>mode\<close> is \<open>"image"\<close> with \<open>imageBase64\<close> absent or falsy, or \<open>mode\<close> is neither
  \<open>"image"\<close> nor \<open>"text"\<close>. (The model is constructed between the first test and the
  other two, so when its construction raises, that error is reported instead.) Such a
  failure ends the process with exit code 1 and an empty standard output. No key other
  than \<open>mode\<close>, \<open>imageBase64\<close> and \<open>text\<close> is read: two objects that agree on these
  three have the same run.
\<close>

theorem request_validation:
  "((\<exists>msg. raised (main env (Inr (JObject kvs))) = Some (ValueError msg)) \<longleftrightarrow>
      (\<not> truthy (dict_get kvs ''mode'' JNull)
       \<or> (\<exists>m. sentence_transformer env MODEL_NAME = Inr m)
         \<and> (dict_get kvs ''mode'' JNull = JString ''image''
              \<and> \<not> truthy (dict_get kvs ''imageBase64'' JNull)
            \<or> dict_get kvs ''mode'' JNull \<noteq> JString ''image''
              \<and> dict_get kvs ''mode'' JNull \<noteq> JString ''text'')))
   \<and> ((\<exists>msg. raised (main env (Inr (JObject kvs))) = Some (ValueError msg)) \<longrightarrow>
        exit_code (main env (Inr (JObject kvs))) = 1 \<and> stdout (main env (Inr (JObject kvs))) = [])
   \<and> (\<forall>kvs'. (\<forall>k \<in> {''mode'', ''imageBase64'', ''text''}. map_of kvs' k = map_of kvs k) \<longrightarrow>
        main env (Inr (JObject kvs')) = main env (Inr (JObject kvs)))"
proof -
  let ?run = "main env (Inr (JObject kvs))"
  let ?mode = "dict_get kvs ''mode'' JNull"
  let ?b = "dict_get kvs ''imageBase64'' JNull"
  have iff: "(\<exists>msg. raised ?run = Some (ValueError msg)) \<longleftrightarrow>
      (\<not> truthy ?mode
       \<or> (\<exists>m. sentence_transformer env MODEL_NAME = Inr m)
         \<and> (?mode = JString ''image'' \<and> \<not> truthy ?b
            \<or> ?mode \<noteq> JString ''image'' \<and> ?mode \<noteq> JString ''text''))"
  proof (cases rule: main_try_cases [of "Inr (JObject kvs)" env])
    case (load_raised msg)
    then show ?thesis by simp
  next
    case (not_dict p msg)
    then have False by auto
    then show ?thesis ..
  next
    case (missing_mode kvs0)
    then show ?thesis by (simp add: raised_value_error)
  next
    case (model_failed kvs0 msg)
    then show ?thesis by (simp add: raised_value_error)
  next
    case (missing_image kvs0 m)
    then show ?thesis by (simp add: raised_value_error)
  next
    case (image_mode kvs0 m)
    then show ?thesis by (simp add: raised_value_error encode_image_no_value_error)
  next
    case (text_mode kvs0 m)
    then show ?thesis by (simp add: raised_value_error encode_text_no_value_error)
  next
    case (unsupported kvs0 m)
    then show ?thesis by (simp add: raised_value_error)
  qed
  have early: "exit_code ?run = 1 \<and> stdout ?run = []" if "raised ?run = Some (ValueError msg)" for msg
  proof -
    from that have "snd (main_try env (Inr (JObject kvs))) = Inl (ValueError msg)"
      by (simp add: raised_value_error)
    then have "main_try env (Inr (JObject kvs)) =
        (fst (main_try env (Inr (JObject kvs))), Inl (ValueError msg))"
      by (simp add: prod_eq_iff)
    then show ?thesis by (rule failed_early)
  qed
  have ignore: "main env (Inr (JObject kvs')) = main env (Inr (JObject kvs))"
    if "\<forall>k \<in> {''mode'', ''imageBase64'', ''text''}. map_of kvs' k = map_of kvs k" for kvs'
    by (rule main_depends) (simp_all add: dict_get_def that)
  show ?thesis
    using iff early ignore by blast
qed

theorem request_validation_witness:
  "(\<exists>msg. raised (main demo_env
      (Inr (JObject [(''mode'', JString ''image''), (''imageBase64'', JString [])]))) =
      Some (ValueError msg))
   \<and> main demo_env (Inr (JObject [(''id'', JInt 7), (''mode'', JString ''text'')])) =
     main demo_env (Inr (JObject [(''mode'', JString ''text'')]))"
proof -
  have m: "\<exists>m. sentence_transformer demo_env MODEL_NAME = Inr m"
    by (simp add: demo_env_def)
  have same: "\<forall>k \<in> {''mode'', ''imageBase64'', ''text''}.
      map_of [(''id'', JInt 7), (''mode'', JString ''text'')] k = map_of [(''mode'', JString ''text'')] k"
    by simp
  note image_case =
    request_validation [of demo_env "[(''mode'', JString ''image''), (''imageBase64'', JString [])]",
      THEN conjunct1]
  note text_case =
    request_validation [of demo_env "[(''mode'', JString ''text'')]",
      THEN conjunct2, THEN conjunct2, THEN spec, THEN mp, OF same]
  from image_case m
  have "\<exists>msg. raised (main demo_env
      (Inr (JObject [(''mode'', JString ''image''), (''imageBase64'', JString [])]))) =
      Some (ValueError msg)"
    by (simp add: dict_get_def)
  moreover from text_case
  have "main demo_env (Inr (JObject [(''id'', JInt 7), (''mode'', JString ''text'')])) =
     main demo_env (Inr (JObject [(''mode'', JString ''text'')]))" .
  ultimately show ?thesis by simp
qed

subsection \<open>C4: the outcome of a run\<close>

text \<open>
  C4, as the claim states it, fails: the handler prints \<open>str(exc)\<close>, and that text need
  not be a single line. A mode that holds a line break is copied into the message
  \<open>Unsupported mode: ...\<close>, and standard error then holds two lines.
\<close>

theorem outcome_shape_counterexample:
  "exit_code (main demo_env (Inr (JObject [(''mode'', JString [CHR ''a'', CHR 0x0A, CHR ''b''])]))) = 1
   \<and> stderr (main demo_env (Inr (JObject [(''mode'', JString [CHR ''a'', CHR 0x0A, CHR ''b''])]))) =
     ''Unsupported mode: a'' @ [CHR 0x0A] @ ''b'' @ [CHR 0x0A]
   \<and> \<not> single_line
        (stderr (main demo_env (Inr (JObject [(''mode'', JString [CHR ''a'', CHR 0x0A, CHR ''b''])]))))"
  by (simp add: script_defs stand_in_defs single_line_def)

text \<open>
  C4, amended. Every run ends in one of three ways. The try block produced a value and
  the serializer wrote it completely: standard output holds that text, standard error
  is empty and the exit code is 0. Or the try block raised an exception \<open>e\<close>: standard
  output is empty, standard error holds \<open>str(e)\<close> followed by one line break, and the
  exit code is 1. Or the serializer raised after writing: standard output holds what it
  had written, standard error holds its message and a line break, and the exit code is
  1. Standard error is a single line exactly when the message holds no line break.

  The message is that of the stage that failed: the error of \<open>json.load\<close>; the
  \<open>AttributeError\<close> of a payload that is not an object; \<open>Missing mode\<close>; the error of
  the model's constructor; \<open>Missing imageBase64\<close>; the error of \<open>b64decode\<close>, of
  \<open>Image.open\<close>, of \<open>convert\<close>, of \<open>resize\<close> or of the encoder on the image path; the
  error of the encoder on the text path; \<open>Unsupported mode: ...\<close>. The value given to
  the serializer is the encoder's result after \<open>tolist()\<close>, on the text path unwrapped
  to its first row.
\<close>

theorem outcome_shape:
  "((\<exists>cs outp written.
        main_try env loaded = (cs, Inr outp) \<and> json_dump env outp = (written, None)
        \<and> main env loaded =
            \<lparr>stdout = written, stderr = [], exit_code = 0, raised = None, calls = cs\<rparr>)
    \<or> (\<exists>cs e.
        main_try env loaded = (cs, Inl e)
        \<and> main env loaded =
            \<lparr>stdout = [], stderr = exc_message e @ newline, exit_code = 1, raised = Some e,
             calls = cs\<rparr>)
    \<or> (\<exists>cs outp written msg.
        main_try env loaded = (cs, Inr outp) \<and> json_dump env outp = (written, Some msg)
        \<and> main env loaded =
            \<lparr>stdout = written, stderr = msg @ newline, exit_code = 1,
             raised = Some (LibraryError msg), calls = cs\<rparr>))
   \<and> (\<forall>e. raised (main env loaded) = Some e \<longrightarrow>
         (single_line (stderr (main env loaded)) \<longleftrightarrow> CHR 0x0A \<notin> set (exc_message e)))
   \<and> reports (main env (Inl msg)) msg
   \<and> ((\<nexists>kvs. p = JObject kvs) \<longrightarrow>
         reports (main env (Inr p))
           (quote @ type_name p @ quote @ '' object has no attribute '' @ quote @ ''get'' @ quote))
   \<and> (\<not> truthy (dict_get kvs ''mode'' JNull) \<longrightarrow>
         reports (main env (Inr (JObject kvs))) ''Missing mode'')
   \<and> (truthy (dict_get kvs ''mode'' JNull) \<and> sentence_transformer env MODEL_NAME = Inl msg \<longrightarrow>
         reports (main env (Inr (JObject kvs))) msg)
   \<and> (dict_get kvs ''mode'' JNull = JString ''image''
         \<and> sentence_transformer env MODEL_NAME = Inr m
         \<and> \<not> truthy (dict_get kvs ''imageBase64'' JNull) \<longrightarrow>
         reports (main env (Inr (JObject kvs))) ''Missing imageBase64'')
   \<and> (dict_get kvs ''mode'' JNull = JString ''image''
         \<and> sentence_transformer env MODEL_NAME = Inr m
         \<and> dict_get kvs ''imageBase64'' JNull = b \<and> truthy b
         \<and> b64decode env b = Inl msg \<longrightarrow>
         reports (main env (Inr (JObject kvs))) msg)
   \<and> (dict_get kvs ''mode'' JNull = JString ''image''
         \<and> sentence_transformer env MODEL_NAME = Inr m
         \<and> dict_get kvs ''imageBase64'' JNull = b \<and> truthy b
         \<and> b64decode env b = Inr bytes \<and> image_open env bytes = Inl msg \<longrightarrow>
         reports (main env (Inr (JObject kvs))) msg)
   \<and> (dict_get kvs ''mode'' JNull = JString ''image''
         \<and> sentence_transformer env MODEL_NAME = Inr m
         \<and> dict_get kvs ''imageBase64'' JNull = b \<and> truthy b
         \<and> b64decode env b = Inr bytes \<and> image_open env bytes = Inr opened
         \<and> image_convert env opened ''RGB'' = Inl msg \<longrightarrow>
         reports (main env (Inr (JObject kvs))) msg)
   \<and> (dict_get kvs ''mode'' JNull = JString ''image''
         \<and> sentence_transformer env MODEL_NAME = Inr m
         \<and> dict_get kvs ''imageBase64'' JNull = b \<and> truthy b
         \<and> b64decode env b = Inr bytes \<and> image_open env bytes = Inr opened
         \<and> image_convert env opened ''RGB'' = Inr rgb
         \<and> image_resize env rgb (224, 224) = Inl msg \<longrightarrow>
         reports (main env (Inr (JObject kvs))) msg)
   \<and> (dict_get kvs ''mode'' JNull = JString ''image''
         \<and> sentence_transformer env MODEL_NAME = Inr m
         \<and> dict_get kvs ''imageBase64'' JNull = b \<and> truthy b
         \<and> b64decode env b = Inr bytes \<and> image_open env bytes = Inr opened
         \<and> image_convert env opened ''RGB'' = Inr rgb
         \<and> image_resize env rgb (224, 224) = Inr img
         \<and> model_encode env m (Item img) = Inl msg \<longrightarrow>
         reports (main env (Inr (JObject kvs))) msg)
   \<and> (dict_get kvs ''mode'' JNull = JString ''text''
         \<and> sentence_transformer env MODEL_NAME = Inr m
         \<and> model_encode env m (Batch [dict_get kvs ''text'' (JString [])]) = Inl msg \<longrightarrow>
         reports (main env (Inr (JObject kvs))) msg)
   \<and> (truthy (dict_get kvs ''mode'' JNull)
         \<and> dict_get kvs ''mode'' JNull \<noteq> JString ''image''
         \<and> dict_get kvs ''mode'' JNull \<noteq> JString ''text''
         \<and> sentence_transformer env MODEL_NAME = Inr m \<longrightarrow>
         reports (main env (Inr (JObject kvs)))
           (''Unsupported mode: '' @ py_str env (dict_get kvs ''mode'' JNull)))
   \<and> (dict_get kvs ''mode'' JNull = JString ''image''
         \<and> sentence_transformer env MODEL_NAME = Inr m
         \<and> dict_get kvs ''imageBase64'' JNull = b \<and> truthy b
         \<and> b64decode env b = Inr bytes \<and> image_open env bytes = Inr opened
         \<and> image_convert env opened ''RGB'' = Inr rgb
         \<and> image_resize env rgb (224, 224) = Inr img
         \<and> model_encode env m (Item img) = Inr emb
         \<and> json_dump env (if has_tolist emb then tolist emb else emb) = (written, r) \<longrightarrow>
         (r = None \<longrightarrow>
            stdout (main env (Inr (JObject kvs))) = written
            \<and> stderr (main env (Inr (JObject kvs))) = []
            \<and> exit_code (main env (Inr (JObject kvs))) = 0)
         \<and> (\<forall>msg'. r = Some msg' \<longrightarrow>
            stdout (main env (Inr (JObject kvs))) = written
            \<and> stderr (main env (Inr (JObject kvs))) = msg' @ newline
            \<and> exit_code (main env (Inr (JObject kvs))) = 1))
   \<and> (dict_get kvs ''mode'' JNull = JString ''text''
         \<and> sentence_transformer env MODEL_NAME = Inr m
         \<and> model_encode env m (Batch [dict_get kvs ''text'' (JString [])]) = Inr emb
         \<and> json_dump env (first_row (if has_tolist emb then tolist emb else emb)) = (written, r) \<longrightarrow>
         (r = None \<longrightarrow>
            stdout (main env (Inr (JObject kvs))) = written
            \<and> stderr (main env (Inr (JObject kvs))) = []
            \<and> exit_code (main env (Inr (JObject kvs))) = 0)
         \<and> (\<forall>msg'. r = Some msg' \<longrightarrow>
            stdout (main env (Inr (JObject kvs))) = written
            \<and> stderr (main env (Inr (JObject kvs))) = msg' @ newline
            \<and> exit_code (main env (Inr (JObject kvs))) = 1))"
  (is "?shape \<and> ?line \<and> ?load \<and> ?dict \<and> ?nomode \<and> ?model \<and> ?noimage \<and> ?b64 \<and> ?open
       \<and> ?convert \<and> ?resize \<and> ?enc_image \<and> ?enc_text \<and> ?unsupported \<and> ?ok_image \<and> ?ok_text")
proof -
  let ?run = "main env (Inr (JObject kvs))"
  let ?mode = "dict_get kvs ''mode'' JNull"
  have shape: ?shape
    by (rule outcome_three_ways)
  have line: ?line
    by (rule raised_single_line)
  have load: ?load
    using reports_raise [OF main_try_load_raised] by simp
  have dict: ?dict
    using reports_raise [OF main_try_not_dict_message] by auto
  have nomode: ?nomode
    using reports_raise [OF main_try_missing_mode] by auto
  have model: ?model
    using reports_raise [OF main_try_model_failed] by auto
  have noimage: ?noimage
    using reports_raise [OF main_try_missing_image] by auto
  have image_raises: "reports ?run (exc_message e)"
    if "?mode = JString ''image''" "sentence_transformer env MODEL_NAME = Inr m"
      "dict_get kvs ''imageBase64'' JNull = b" "truthy b"
      "encode_image env m b = (cs, Inl e)" for cs e
  proof -
    have "main_try env (Inr (JObject kvs)) = (LoadModel MODEL_NAME # cs, Inl e)"
      using main_try_image [OF that(1,2)] that(3,4,5) by simp
    then show ?thesis by (rule reports_raise)
  qed
  have b64: ?b64
    using image_raises encode_image_b64_raises [of env b msg m] by auto
  have opened: ?open
    using image_raises encode_image_open_raises [of env b bytes msg m] by auto
  have convert: ?convert
    using image_raises encode_image_convert_raises [of env b bytes opened msg m] by auto
  have resize: ?resize
    using image_raises encode_image_resize_raises [of env b bytes opened rgb msg m] by auto
  have enc_image: ?enc_image
    using image_raises encode_image_encode_raises [of env b bytes opened rgb img m msg] by auto
  have enc_text: ?enc_text
  proof (intro impI, elim conjE)
    assume a: "?mode = JString ''text''" "sentence_transformer env MODEL_NAME = Inr m"
      and e: "model_encode env m (Batch [dict_get kvs ''text'' (JString [])]) = Inl msg"
    have "main_try env (Inr (JObject kvs)) =
        ([LoadModel MODEL_NAME, Encode m (Batch [dict_get kvs ''text'' (JString [])])],
         Inl (LibraryError msg))"
      using main_try_text [OF a] e by (simp add: encode_text_run)
    from reports_raise [OF this] show "reports ?run msg" by simp
  qed
  have unsupported: ?unsupported
    using reports_raise [OF main_try_unsupported] by auto
  have ok_image: ?ok_image
  proof (intro impI, elim conjE)
    assume a: "?mode = JString ''image''" "sentence_transformer env MODEL_NAME = Inr m"
      and b: "dict_get kvs ''imageBase64'' JNull = b" "truthy b"
      and ok: "b64decode env b = Inr bytes" "image_open env bytes = Inr opened"
        "image_convert env opened ''RGB'' = Inr rgb" "image_resize env rgb (224, 224) = Inr img"
        "model_encode env m (Item img) = Inr emb"
      and d: "json_dump env (if has_tolist emb then tolist emb else emb) = (written, r)"
    have "main_try env (Inr (JObject kvs)) =
        (LoadModel MODEL_NAME # [B64Decode b, ImageOpen bytes, Convert opened ''RGB'',
           Resize rgb (224, 224), Encode m (Item img)],
         Inr (if has_tolist emb then tolist emb else emb))"
      using main_try_image [OF a] b encode_image_success [OF ok] by simp
    from serialized [OF this d]
    show "(r = None \<longrightarrow> stdout ?run = written \<and> stderr ?run = [] \<and> exit_code ?run = 0)
       \<and> (\<forall>msg'. r = Some msg' \<longrightarrow>
            stdout ?run = written \<and> stderr ?run = msg' @ newline \<and> exit_code ?run = 1)" .
  qed
  have ok_text: ?ok_text
  proof (intro impI, elim conjE)
    assume a: "?mode = JString ''text''" "sentence_transformer env MODEL_NAME = Inr m"
      and e: "model_encode env m (Batch [dict_get kvs ''text'' (JString [])]) = Inr emb"
      and d: "json_dump env (first_row (if has_tolist emb then tolist emb else emb)) = (written, r)"
    have "main_try env (Inr (JObject kvs)) =
        ([LoadModel MODEL_NAME, Encode m (Batch [dict_get kvs ''text'' (JString [])])],
         Inr (first_row (if has_tolist emb then tolist emb else emb)))"
      using main_try_text [OF a] encode_text_returns [OF e] by simp
    from serialized [OF this d]
    show "(r = None \<longrightarrow> stdout ?run = written \<and> stderr ?run = [] \<and> exit_code ?run = 0)
       \<and> (\<forall>msg'. r = Some msg' \<longrightarrow>
            stdout ?run = written \<and> stderr ?run = msg' @ newline \<and> exit_code ?run = 1)" .
  qed
  show ?thesis
    using shape line load dict nomode model noimage b64 opened convert resize enc_image enc_text
      unsupported ok_image ok_text
    by (intro conjI)
qed

theorem outcome_shape_witness:
  "reports (main demo_env (Inr (JObject []))) ''Missing mode''
   \<and> reports (main demo_env (Inr (JObject [(''mode'', JString ''text''), (''text'', JNull)])))
        ''text input must be of type str''
   \<and> stdout (main demo_env (Inr (JObject [(''mode'', JString ''text''), (''text'', JString ''a dog'')]))) =
        ''[5e0, 5e-1]''
   \<and> exit_code (main demo_env (Inr (JObject [(''mode'', JString ''text''), (''text'', JString ''a dog'')]))) = 0"
proof -
  have m: "sentence_transformer demo_env MODEL_NAME = Inr ()"
    by (simp add: demo_env_def)
  note missing = outcome_shape [where env = demo_env and kvs = "[]",
      THEN conjunct2, THEN conjunct2, THEN conjunct2, THEN conjunct2, THEN conjunct1]
  have a: "reports (main demo_env (Inr (JObject []))) ''Missing mode''"
    using missing by (simp add: dict_get_def)
  note raises = outcome_shape [where env = demo_env and m = "()"
      and kvs = "[(''mode'', JString ''text''), (''text'', JNull)]"
      and msg = "''text input must be of type str''",
      THEN conjunct2, THEN conjunct2, THEN conjunct2, THEN conjunct2, THEN conjunct2,
      THEN conjunct2, THEN conjunct2, THEN conjunct2, THEN conjunct2, THEN conjunct2,
      THEN conjunct2, THEN conjunct2, THEN conjunct1]
  have b: "reports (main demo_env (Inr (JObject [(''mode'', JString ''text''), (''text'', JNull)])))
      ''text input must be of type str''"
    using raises m by (simp add: dict_get_def demo_env_def)
  note returns = outcome_shape [where env = demo_env and m = "()"
      and kvs = "[(''mode'', JString ''text''), (''text'', JString ''a dog'')]"
      and emb = "PyArray (PyList [PyList [PyNum (Finite 5 0), PyNum (Finite 5 (-1))]])"
      and written = "''[5e0, 5e-1]''" and r = None,
      THEN conjunct2, THEN conjunct2, THEN conjunct2, THEN conjunct2, THEN conjunct2,
      THEN conjunct2, THEN conjunct2, THEN conjunct2, THEN conjunct2, THEN conjunct2,
      THEN conjunct2, THEN conjunct2, THEN conjunct2, THEN conjunct2, THEN conjunct2]
  have c: "stdout (main demo_env (Inr (JObject [(''mode'', JString ''text''), (''text'', JString ''a dog'')]))) =
        ''[5e0, 5e-1]''
      \<and> exit_code (main demo_env (Inr (JObject [(''mode'', JString ''text''), (''text'', JString ''a dog'')]))) = 0"
    using returns m
    by (simp add: dict_get_def demo_env_def str_int_def str_nat.simps digit_char_def)
  show ?thesis using a b c by simp
qed

text \<open>
  The third way with a serializer that writes as it goes: the list ends in an object it
  cannot serialize, and the opening of the array is on standard output when the process
  exits with code 1.
\<close>

lemma partial_output_when_the_serializer_raises:
  "main opaque_env (Inr (JObject [(''mode'', JString ''text'')])) =
     \<lparr>stdout = ''[1e0, '', stderr = ''Object is not JSON serializable'' @ newline, exit_code = 1,
      raised = Some (LibraryError ''Object is not JSON serializable''),
      calls = [LoadModel MODEL_NAME, Encode () (Batch [JString []])]\<rparr>"
  by (simp add: script_defs stand_in_defs str_int_def str_nat.simps digit_char_def)

subsection \<open>C5: when the model is constructed\<close>

text \<open>
  C5, as the claim states it, fails: \<open>load_model()\<close> is called on line 43, after the test
  of \<open>mode\<close> for truth and before the branches that look at its value. A request with
  an unrecognized mode, and an image request without \<open>imageBase64\<close>, both construct the
  model and never call its encoder.
\<close>

theorem model_construction_order_counterexample:
  "calls (main demo_env (Inr (JObject [(''mode'', JString ''unsupported'')]))) =
     [LoadModel MODEL_NAME]
   \<and> calls (main demo_env (Inr (JObject [(''mode'', JString ''image'')]))) =
     [LoadModel MODEL_NAME]
   \<and> filter is_encode (calls (main demo_env (Inr (JObject [(''mode'', JString ''unsupported'')])))) = []"
  by (simp add: script_defs stand_in_defs)

text \<open>
  C5, amended. In every run: the model is constructed only for a payload that is an
  object with a truthy \<open>mode\<close>, and for every such payload it is the first call made,
  whatever the mode is; it is constructed at most once, under the fixed model name; the
  encoder is called at most once, only on the constructed model, and only when \<open>mode\<close>
  is \<open>"text"\<close> or is \<open>"image"\<close> with a truthy \<open>imageBase64\<close>; and a run that exits with
  code 0 has called the encoder exactly once.
\<close>

theorem model_construction_order:
  "(\<forall>c \<in> set (calls (main env loaded)). is_load c \<longrightarrow>
      c = LoadModel MODEL_NAME
      \<and> (\<exists>kvs. loaded = Inr (JObject kvs) \<and> truthy (dict_get kvs ''mode'' JNull)))
   \<and> (\<forall>kvs. loaded = Inr (JObject kvs) \<and> truthy (dict_get kvs ''mode'' JNull) \<longrightarrow>
        take 1 (calls (main env loaded)) = [LoadModel MODEL_NAME])
   \<and> length (filter is_load (calls (main env loaded))) \<le> 1
   \<and> length (filter is_encode (calls (main env loaded))) \<le> 1
   \<and> (\<forall>m arg. Encode m arg \<in> set (calls (main env loaded)) \<longrightarrow>
        sentence_transformer env MODEL_NAME = Inr m
        \<and> take 1 (calls (main env loaded)) = [LoadModel MODEL_NAME]
        \<and> (\<exists>kvs. loaded = Inr (JObject kvs)
             \<and> (dict_get kvs ''mode'' JNull = JString ''image''
                  \<and> truthy (dict_get kvs ''imageBase64'' JNull)
                \<or> dict_get kvs ''mode'' JNull = JString ''text'')))
   \<and> (exit_code (main env loaded) = 0 \<longrightarrow>
        length (filter is_encode (calls (main env loaded))) = 1)"
  unfolding calls_main
proof (intro conjI ballI allI impI)
  fix c :: "('a, 'b) call"
  assume c: "c \<in> set (fst (main_try env loaded))" "is_load c"
  from load_only_after_mode [OF c]
  show "c = LoadModel MODEL_NAME"
    and "\<exists>kvs. loaded = Inr (JObject kvs) \<and> truthy (dict_get kvs ''mode'' JNull)"
    by simp_all
next
  fix kvs
  assume "loaded = Inr (JObject kvs) \<and> truthy (dict_get kvs ''mode'' JNull)"
  then show "take 1 (fst (main_try env loaded)) = [LoadModel MODEL_NAME]"
    using load_first [of loaded kvs env] by simp
next
  show "length (filter is_load (fst (main_try env loaded))) \<le> 1"
    by (rule load_at_most_once)
next
  show "length (filter is_encode (fst (main_try env loaded))) \<le> 1"
    by (rule encode_at_most_once)
next
  fix m arg
  assume e: "Encode m arg \<in> set (fst (main_try env loaded))"
  from encode_needs_model [OF e]
  show "sentence_transformer env MODEL_NAME = Inr m"
    and "take 1 (fst (main_try env loaded)) = [LoadModel MODEL_NAME]"
    and "\<exists>kvs. loaded = Inr (JObject kvs)
         \<and> (dict_get kvs ''mode'' JNull = JString ''image''
              \<and> truthy (dict_get kvs ''imageBase64'' JNull)
            \<or> dict_get kvs ''mode'' JNull = JString ''text'')"
    by simp_all
next
  assume "exit_code (main env loaded) = 0"
  from exit_zero_returned [OF this] obtain outp where "snd (main_try env loaded) = Inr outp" ..
  then show "length (filter is_encode (fst (main_try env loaded))) = 1"
    by (rule returned_encoded_once)
qed

theorem model_construction_order_witness:
  "length (filter is_encode (calls (main demo_env (Inr (JObject [(''mode'', JString ''text'')]))))) = 1
   \<and> take 1 (calls (main demo_env (Inr (JObject [(''mode'', JString ''text'')])))) =
     [LoadModel MODEL_NAME]"
proof -
  have "exit_code (main demo_env (Inr (JObject [(''mode'', JString ''text'')]))) = 0"
    by (simp add: script_defs stand_in_defs str_int_def str_nat.simps digit_char_def)
  moreover have "truthy (dict_get [(''mode'', JString ''text'')] ''mode'' JNull)"
    by (simp add: dict_get_def)
  ultimately show ?thesis
    using model_construction_order [of demo_env "Inr (JObject [(''mode'', JString ''text'')])"]
    by simp
qed

subsection \<open>C6: the message for an unsupported mode\<close>

text \<open>
  C6, as the claim states it, fails: the model is constructed before the mode is
  compared with \<open>"image"\<close> and \<open>"text"\<close>, so when the construction raises, the message on
  standard error is that of the construction and does not name the mode.
\<close>

theorem unsupported_mode_message_counterexample:
  "stderr (main offline_env (Inr (JObject [(''mode'', JString ''unsupported'')]))) =
     ''model files are not available'' @ newline
   \<and> \<not> contains (stderr (main offline_env (Inr (JObject [(''mode'', JString ''unsupported'')]))))
        ''unsupported''"
  by (simp add: script_defs stand_in_defs)

text \<open>
  C6, amended. For every request whose \<open>mode\<close> is present, truthy and neither \<open>"image"\<close>
  nor \<open>"text"\<close>, the process exits with code 1 and writes nothing to standard output.
  When the model's construction returns, standard error holds \<open>Unsupported mode: \<close>
  followed by \<open>str(mode)\<close> and a line break, so it contains the mode as Python prints
  it (a str is printed as itself). When the construction raises, standard error holds
  the construction's message instead.
\<close>

theorem unsupported_mode_message:
  assumes "map_of kvs ''mode'' = Some mode" and "truthy mode"
    and "mode \<noteq> JString ''image''" and "mode \<noteq> JString ''text''"
  shows "exit_code (main env (Inr (JObject kvs))) = 1
    \<and> stdout (main env (Inr (JObject kvs))) = []
    \<and> (\<forall>m. sentence_transformer env MODEL_NAME = Inr m \<longrightarrow>
          stderr (main env (Inr (JObject kvs))) = ''Unsupported mode: '' @ py_str env mode @ newline
          \<and> contains (stderr (main env (Inr (JObject kvs)))) (py_str env mode))
    \<and> (\<forall>s. mode = JString s \<longrightarrow> py_str env mode = s)
    \<and> (\<forall>msg. sentence_transformer env MODEL_NAME = Inl msg \<longrightarrow>
          stderr (main env (Inr (JObject kvs))) = msg @ newline)"
proof -
  have mode: "dict_get kvs ''mode'' JNull = mode"
    using assms(1) by (rule dict_get_Some)
  have t: "truthy (dict_get kvs ''mode'' JNull)"
    and ni: "dict_get kvs ''mode'' JNull \<noteq> JString ''image''"
    and nt: "dict_get kvs ''mode'' JNull \<noteq> JString ''text''"
    using assms(2-4) by (simp_all add: mode)
  have ok: "main env (Inr (JObject kvs)) =
      failed [] (ValueError (''Unsupported mode: '' @ py_str env mode)) [LoadModel MODEL_NAME]"
    if "sentence_transformer env MODEL_NAME = Inr m" for m
    using main_try_unsupported [OF t ni nt that] by (simp add: main_of_raise mode)
  have bad: "main env (Inr (JObject kvs)) = failed [] (LibraryError msg) [LoadModel MODEL_NAME]"
    if "sentence_transformer env MODEL_NAME = Inl msg" for msg
    using main_try_model_failed [OF t that] by (simp add: main_of_raise)
  have exit1: "exit_code (main env (Inr (JObject kvs))) = 1
      \<and> stdout (main env (Inr (JObject kvs))) = []"
    by (cases "sentence_transformer env MODEL_NAME") (simp_all add: ok bad failed_def)
  have msg: "stderr (main env (Inr (JObject kvs))) = ''Unsupported mode: '' @ py_str env mode @ newline
      \<and> contains (stderr (main env (Inr (JObject kvs)))) (py_str env mode)"
    if "sentence_transformer env MODEL_NAME = Inr m" for m
    using contains_append [of "''Unsupported mode: ''" "py_str env mode" newline]
    by (simp add: ok [OF that] failed_def)
  have str: "py_str env mode = s" if "mode = JString s" for s
    using that by simp
  have lib: "stderr (main env (Inr (JObject kvs))) = msg @ newline"
    if "sentence_transformer env MODEL_NAME = Inl msg" for msg
    by (simp add: bad [OF that] failed_def)
  show ?thesis
    using exit1 msg str lib by blast
qed

theorem unsupported_mode_message_witness:
  "stderr (main demo_env (Inr (JObject [(''mode'', JString ''unsupported'')]))) =
     ''Unsupported mode: unsupported'' @ newline
   \<and> contains (stderr (main demo_env (Inr (JObject [(''mode'', JString ''unsupported'')]))))
        ''unsupported''
   \<and> exit_code (main demo_env (Inr (JObject [(''mode'', JString ''unsupported'')]))) = 1"
proof -
  have p: "map_of [(''mode'', JString ''unsupported'')] ''mode'' = Some (JString ''unsupported'')"
    by simp
  have m: "sentence_transformer demo_env MODEL_NAME = Inr ()"
    by (simp add: demo_env_def)
  from unsupported_mode_message [OF p, of demo_env] m
  show ?thesis by simp
qed

subsection \<open>C7: a text that is absent\<close>

text \<open>
  C7. A request with mode \<open>"text"\<close> and no \<open>text\<close> key is treated as if \<open>text\<close> were
  the empty string: the run is the same, in every environment, as the run on the request
  with \<open>"text": ""\<close> added. Once the model is constructed the encoder is called on the
  batch holding the empty string, and the run is decided by what the encoder does with
  that batch: when it raises, its message is reported and the exit code is 1; when it
  returns and the serializer writes the unwrapped result, the process exits with code 0
  and standard output is that text. In particular, for an encoder that returns an array
  of one row, standard output is the serialized row.
\<close>

theorem absent_text_is_empty_string:
  assumes "map_of kvs ''mode'' = Some (JString ''text'')"
    and "map_of kvs ''text'' = None"
  shows "main env (Inr (JObject kvs)) = main env (Inr (JObject ((''text'', JString []) # kvs)))
    \<and> (\<forall>m msg.
          sentence_transformer env MODEL_NAME = Inr m
          \<and> model_encode env m (Batch [JString []]) = Inl msg \<longrightarrow>
          main env (Inr (JObject kvs)) =
            \<lparr>stdout = [], stderr = msg @ newline, exit_code = 1,
             raised = Some (LibraryError msg),
             calls = [LoadModel MODEL_NAME, Encode m (Batch [JString []])]\<rparr>)
    \<and> (\<forall>m e0 written.
          sentence_transformer env MODEL_NAME = Inr m
          \<and> model_encode env m (Batch [JString []]) = Inr e0
          \<and> json_dump env (first_row (if has_tolist e0 then tolist e0 else e0)) = (written, None) \<longrightarrow>
          main env (Inr (JObject kvs)) =
            \<lparr>stdout = written, stderr = [], exit_code = 0, raised = None,
             calls = [LoadModel MODEL_NAME, Encode m (Batch [JString []])]\<rparr>)
    \<and> (\<forall>m row written.
          sentence_transformer env MODEL_NAME = Inr m
          \<and> model_encode env m (Batch [JString []]) = Inr (PyArray (PyList [PyList row]))
          \<and> json_dump env (PyList row) = (written, None) \<longrightarrow>
          main env (Inr (JObject kvs)) =
            \<lparr>stdout = written, stderr = [], exit_code = 0, raised = None,
             calls = [LoadModel MODEL_NAME, Encode m (Batch [JString []])]\<rparr>)"
proof -
  have mode: "dict_get kvs ''mode'' JNull = JString ''text''"
    using assms(1) by (rule dict_get_Some)
  have dflt: "dict_get kvs ''text'' (JString []) = JString []"
    using assms(2) by (rule dict_get_None)
  have same: "main env (Inr (JObject kvs)) = main env (Inr (JObject ((''text'', JString []) # kvs)))"
    by (rule main_depends) (simp_all add: dict_get_def assms)
  have raises: "main env (Inr (JObject kvs)) =
      \<lparr>stdout = [], stderr = msg @ newline, exit_code = 1, raised = Some (LibraryError msg),
       calls = [LoadModel MODEL_NAME, Encode m (Batch [JString []])]\<rparr>"
    if m: "sentence_transformer env MODEL_NAME = Inr m"
      and e: "model_encode env m (Batch [JString []]) = Inl msg"
    for m msg
  proof -
    have "main_try env (Inr (JObject kvs)) =
        ([LoadModel MODEL_NAME, Encode m (Batch [JString []])], Inl (LibraryError msg))"
      using main_try_text [OF mode m] e by (simp add: dflt encode_text_run)
    then show ?thesis by (simp add: main_of_raise failed_def)
  qed
  have returns: "main env (Inr (JObject kvs)) =
      \<lparr>stdout = written, stderr = [], exit_code = 0, raised = None,
       calls = [LoadModel MODEL_NAME, Encode m (Batch [JString []])]\<rparr>"
    if m: "sentence_transformer env MODEL_NAME = Inr m"
      and e: "model_encode env m (Batch [JString []]) = Inr e0"
      and dump: "json_dump env (first_row (if has_tolist e0 then tolist e0 else e0)) = (written, None)"
    for m e0 written
  proof -
    have "main_try env (Inr (JObject kvs)) =
        ([LoadModel MODEL_NAME, Encode m (Batch [JString []])],
         Inr (first_row (if has_tolist e0 then tolist e0 else e0)))"
      using main_try_text [OF mode m] encode_text_returns [OF e] by (simp add: dflt)
    then show ?thesis using dump by (rule main_of_value)
  qed
  have row: "main env (Inr (JObject kvs)) =
      \<lparr>stdout = written, stderr = [], exit_code = 0, raised = None,
       calls = [LoadModel MODEL_NAME, Encode m (Batch [JString []])]\<rparr>"
    if m: "sentence_transformer env MODEL_NAME = Inr m"
      and e: "model_encode env m (Batch [JString []]) = Inr (PyArray (PyList [PyList row]))"
      and dump: "json_dump env (PyList row) = (written, None)"
    for m row written
    using returns [OF m e] dump by simp
  show ?thesis
    using same raises returns row by blast
qed

theorem absent_text_is_empty_string_witness:
  "main demo_env (Inr (JObject [(''mode'', JString ''text'')])) =
     main demo_env (Inr (JObject [(''text'', JString []), (''mode'', JString ''text'')]))
   \<and> main demo_env (Inr (JObject [(''mode'', JString ''text'')])) =
     \<lparr>stdout = ''[0e0, 5e-1]'', stderr = [], exit_code = 0, raised = None,
      calls = [LoadModel MODEL_NAME, Encode () (Batch [JString []])]\<rparr>"
proof -
  have p1: "map_of [(''mode'', JString ''text'')] ''mode'' = Some (JString ''text'')"
    by simp
  have p2: "map_of [(''mode'', JString ''text'')] ''text'' = None"
    by simp
  have h: "sentence_transformer demo_env MODEL_NAME = Inr ()
      \<and> model_encode demo_env () (Batch [JString []]) =
          Inr (PyArray (PyList [PyList [PyNum (Finite 0 0), PyNum (Finite 5 (-1))]]))
      \<and> json_dump demo_env (PyList [PyNum (Finite 0 0), PyNum (Finite 5 (-1))]) =
          (''[0e0, 5e-1]'', None)"
    by (simp add: demo_env_def str_int_def str_nat.simps digit_char_def)
  note t = absent_text_is_empty_string [OF p1 p2, of demo_env]
  note row = t [THEN conjunct2, THEN conjunct2, THEN conjunct2, THEN spec, THEN spec, THEN spec,
      THEN mp, OF h]
  show ?thesis
    using t [THEN conjunct1] row by simp
qed

subsection \<open>C9: a falsy mode\<close>

text \<open>
  C9. A request whose \<open>mode\<close> field is present but falsy (the empty string, \<open>0\<close>,
  \<open>false\<close> or \<open>null\<close>, and likewise any other falsy value) is rejected with the
  missing-mode error: \<open>Missing mode\<close> goes to standard error, the exit code is 1, nothing
  is written to standard output and no library is called. It is not reported as an
  unsupported mode.
\<close>

theorem falsy_mode_is_missing_mode:
  assumes "map_of kvs ''mode'' = Some v"
    and "v \<in> {JString [], JInt 0, JBool False, JNull} \<or> \<not> truthy v"
  shows "main env (Inr (JObject kvs)) =
    \<lparr>stdout = [], stderr = ''Missing mode'' @ newline, exit_code = 1,
     raised = Some (ValueError ''Missing mode''), calls = []\<rparr>"
proof -
  from assms(2) have "\<not> truthy v" by auto
  then have "\<not> truthy (dict_get kvs ''mode'' JNull)"
    using assms(1) by (simp add: dict_get_Some)
  then have "main_try env (Inr (JObject kvs)) = ([], Inl (ValueError ''Missing mode''))"
    by (rule main_try_missing_mode)
  then show ?thesis
    by (simp add: main_of_raise failed_def)
qed

theorem falsy_mode_is_missing_mode_witness:
  "stderr (main demo_env (Inr (JObject [(''mode'', JString [])]))) = ''Missing mode'' @ newline
   \<and> stderr (main demo_env (Inr (JObject [(''mode'', JInt 0)]))) = ''Missing mode'' @ newline
   \<and> stderr (main demo_env (Inr (JObject [(''mode'', JBool False)]))) = ''Missing mode'' @ newline
   \<and> stderr (main demo_env (Inr (JObject [(''mode'', JNull)]))) = ''Missing mode'' @ newline
   \<and> exit_code (main demo_env (Inr (JObject [(''mode'', JArray [])]))) = 1"
  using falsy_mode_is_missing_mode [of "[(''mode'', JString [])]" "JString []" demo_env]
    falsy_mode_is_missing_mode [of "[(''mode'', JInt 0)]" "JInt 0" demo_env]
    falsy_mode_is_missing_mode [of "[(''mode'', JBool False)]" "JBool False" demo_env]
    falsy_mode_is_missing_mode [of "[(''mode'', JNull)]" "JNull" demo_env]
    falsy_mode_is_missing_mode [of "[(''mode'', JArray [])]" "JArray []" demo_env]
  by simp

subsection \<open>C10: a text that is null\<close>

text \<open>
  C10. In text mode the empty-string default of \<open>payload.get("text", "")\<close> applies only
  when the \<open>text\<close> key is absent: once the model is constructed, the one-element batch
  handed to the encoder holds the stored value whenever the key is present, and the
  value of the try block is what the encoder makes of that batch. For a request whose
  \<open>text\<close> is \<open>null\<close> the batch is \<open>[None]\<close>: the encoder is never called with the empty
  string, the run reports the encoder's error on \<open>[None]\<close> when it raises, and
  serializes the encoder's result on \<open>[None]\<close> when it returns.
\<close>

theorem null_text_is_passed_on:
  assumes "map_of kvs ''mode'' = Some (JString ''text'')"
    and "sentence_transformer env MODEL_NAME = Inr m"
  shows "calls (main env (Inr (JObject kvs))) =
      [LoadModel MODEL_NAME,
       Encode m (Batch [case map_of kvs ''text'' of None \<Rightarrow> JString [] | Some v \<Rightarrow> v])]
    \<and> snd (main_try env (Inr (JObject kvs))) =
      (case model_encode env m
              (Batch [case map_of kvs ''text'' of None \<Rightarrow> JString [] | Some v \<Rightarrow> v]) of
         Inl msg \<Rightarrow> Inl (LibraryError msg)
       | Inr e0 \<Rightarrow> Inr (first_row (if has_tolist e0 then tolist e0 else e0)))
    \<and> (map_of kvs ''text'' = Some JNull \<longrightarrow>
         calls (main env (Inr (JObject kvs))) = [LoadModel MODEL_NAME, Encode m (Batch [JNull])]
         \<and> Encode m (Batch [JString []]) \<notin> set (calls (main env (Inr (JObject kvs))))
         \<and> snd (main_try env (Inr (JObject kvs))) =
            (case model_encode env m (Batch [JNull]) of
               Inl msg \<Rightarrow> Inl (LibraryError msg)
             | Inr e0 \<Rightarrow> Inr (first_row (if has_tolist e0 then tolist e0 else e0)))
         \<and> (\<forall>msg. model_encode env m (Batch [JNull]) = Inl msg \<longrightarrow>
              main env (Inr (JObject kvs)) =
                \<lparr>stdout = [], stderr = msg @ newline, exit_code = 1,
                 raised = Some (LibraryError msg),
                 calls = [LoadModel MODEL_NAME, Encode m (Batch [JNull])]\<rparr>)
         \<and> (\<forall>e0 written.
              model_encode env m (Batch [JNull]) = Inr e0
              \<and> json_dump env (first_row (if has_tolist e0 then tolist e0 else e0)) = (written, None) \<longrightarrow>
              main env (Inr (JObject kvs)) =
                \<lparr>stdout = written, stderr = [], exit_code = 0, raised = None,
                 calls = [LoadModel MODEL_NAME, Encode m (Batch [JNull])]\<rparr>))"
proof -
  let ?t = "case map_of kvs ''text'' of None \<Rightarrow> JString [] | Some v \<Rightarrow> v"
  have mode: "dict_get kvs ''mode'' JNull = JString ''text''"
    using assms(1) by (rule dict_get_Some)
  have t: "dict_get kvs ''text'' (JString []) = ?t"
    by (simp add: dict_get_def)
  have run: "main_try env (Inr (JObject kvs)) =
      ([LoadModel MODEL_NAME, Encode m (Batch [?t])],
       case model_encode env m (Batch [?t]) of
         Inl msg \<Rightarrow> Inl (LibraryError msg)
       | Inr e0 \<Rightarrow> Inr (first_row (if has_tolist e0 then tolist e0 else e0)))"
    using main_try_text [OF mode assms(2)] by (simp add: t encode_text_first_row)
  have general: "calls (main env (Inr (JObject kvs))) = [LoadModel MODEL_NAME, Encode m (Batch [?t])]
      \<and> snd (main_try env (Inr (JObject kvs))) =
        (case model_encode env m (Batch [?t]) of
           Inl msg \<Rightarrow> Inl (LibraryError msg)
         | Inr e0 \<Rightarrow> Inr (first_row (if has_tolist e0 then tolist e0 else e0)))"
    by (simp add: run)
  have null: "calls (main env (Inr (JObject kvs))) = [LoadModel MODEL_NAME, Encode m (Batch [JNull])]
      \<and> Encode m (Batch [JString []]) \<notin> set (calls (main env (Inr (JObject kvs))))
      \<and> snd (main_try env (Inr (JObject kvs))) =
         (case model_encode env m (Batch [JNull]) of
            Inl msg \<Rightarrow> Inl (LibraryError msg)
          | Inr e0 \<Rightarrow> Inr (first_row (if has_tolist e0 then tolist e0 else e0)))
      \<and> (\<forall>msg. model_encode env m (Batch [JNull]) = Inl msg \<longrightarrow>
           main env (Inr (JObject kvs)) =
             \<lparr>stdout = [], stderr = msg @ newline, exit_code = 1,
              raised = Some (LibraryError msg),
              calls = [LoadModel MODEL_NAME, Encode m (Batch [JNull])]\<rparr>)
      \<and> (\<forall>e0 written.
           model_encode env m (Batch [JNull]) = Inr e0
           \<and> json_dump env (first_row (if has_tolist e0 then tolist e0 else e0)) = (written, None) \<longrightarrow>
           main env (Inr (JObject kvs)) =
             \<lparr>stdout = written, stderr = [], exit_code = 0, raised = None,
              calls = [LoadModel MODEL_NAME, Encode m (Batch [JNull])]\<rparr>)"
    if n: "map_of kvs ''text'' = Some JNull"
  proof -
    have run': "main_try env (Inr (JObject kvs)) =
        ([LoadModel MODEL_NAME, Encode m (Batch [JNull])],
         case model_encode env m (Batch [JNull]) of
           Inl msg \<Rightarrow> Inl (LibraryError msg)
         | Inr e0 \<Rightarrow> Inr (first_row (if has_tolist e0 then tolist e0 else e0)))"
      using run by (simp add: n)
    have raises: "main env (Inr (JObject kvs)) =
        \<lparr>stdout = [], stderr = msg @ newline, exit_code = 1, raised = Some (LibraryError msg),
         calls = [LoadModel MODEL_NAME, Encode m (Batch [JNull])]\<rparr>"
      if "model_encode env m (Batch [JNull]) = Inl msg" for msg
      using run' that by (simp add: main_of_raise failed_def)
    have returns: "main env (Inr (JObject kvs)) =
        \<lparr>stdout = written, stderr = [], exit_code = 0, raised = None,
         calls = [LoadModel MODEL_NAME, Encode m (Batch [JNull])]\<rparr>"
      if "model_encode env m (Batch [JNull]) = Inr e0"
        and "json_dump env (first_row (if has_tolist e0 then tolist e0 else e0)) = (written, None)"
      for e0 written
      using run' that by (simp add: main_of_value)
    show ?thesis
      using raises returns by (simp add: run')
  qed
  show ?thesis
    using general null by blast
qed

theorem null_text_is_passed_on_witness:
  "main demo_env (Inr (JObject [(''mode'', JString ''text''), (''text'', JNull)])) =
     \<lparr>stdout = [], stderr = ''text input must be of type str'' @ newline, exit_code = 1,
      raised = Some (LibraryError ''text input must be of type str''),
      calls = [LoadModel MODEL_NAME, Encode () (Batch [JNull])]\<rparr>"
proof -
  have p: "map_of [(''mode'', JString ''text''), (''text'', JNull)] ''mode'' = Some (JString ''text'')"
    by simp
  have m: "sentence_transformer demo_env MODEL_NAME = Inr ()"
    by (simp add: demo_env_def)
  have n: "map_of [(''mode'', JString ''text''), (''text'', JNull)] ''text'' = Some JNull"
    by simp
  have e: "model_encode demo_env () (Batch [JNull]) = Inl ''text input must be of type str''"
    by (simp add: demo_env_def)
  note t = null_text_is_passed_on [OF p m, THEN conjunct2, THEN conjunct2, THEN mp, OF n]
  from t [THEN conjunct2, THEN conjunct2, THEN conjunct2, THEN conjunct1, THEN spec, THEN mp, OF e]
  show ?thesis .
qed

end
